theory Spec2Isabelle
  imports Complex_Main "HOL-Library.Multiset"
begin

section \<open>Failures of a call\<close>

text \<open>
  The exceptions and aborts a call can end in.  \<open>AssertionFailed\<close> is a failed
  \<^verbatim>\<open>assert\<close>, \<open>WrongSizeException\<close> the exception of that name,
  \<open>IndexOutOfRange\<close> an access outside a container, \<open>DivisionByZero\<close> an
  integer division by zero, \<open>ResizingFixedSizeEntityException\<close> the exception of
  that name.
\<close>

datatype error =
    AssertionFailed
  | WrongSizeException
  | IndexOutOfRange
  | DivisionByZero
  | ResizingFixedSizeEntityException

section \<open>StateTransitionDensity (state\_transition\_density.hpp)\<close>

text \<open>
  \<open>log_probability\<close> is the pure virtual density of the interface, a parameter here.
  \<open>StateArray\<close>, \<open>InputArray\<close> and \<open>ValueArray\<close> are lists.  The scalar type
  \<open>FloatingPoint\<close> is the type variable \<open>'r\<close>, and \<open>std::exp\<close> on it the parameter
  \<open>exp_fp\<close>: nothing below depends on how it rounds.

  \<open>log_probabilities\<close> asserts that \<open>states\<close> and \<open>cond_inputs\<close> have one size and then
  fills \<open>probs[i]\<close> for \<open>i = 0, 1, ...\<close>; a read past the end of \<open>cond_states\<close>
  is the one access the assertion does not cover.
\<close>

function log_probabilities_loop ::
  "('s \<Rightarrow> 's \<Rightarrow> 'i \<Rightarrow> 'r \<Rightarrow> 'r) \<Rightarrow> 's list \<Rightarrow> 's list \<Rightarrow> 'i list \<Rightarrow> 'r \<Rightarrow>
   nat \<Rightarrow> 'r list \<Rightarrow> error + 'r list" where
  "log_probabilities_loop log_probability states cond_states cond_inputs dt i probs =
     (if i < length states then
        (if i < length cond_states \<and> i < length cond_inputs then
           log_probabilities_loop log_probability states cond_states cond_inputs dt (Suc i)
             (probs @ [log_probability (states ! i) (cond_states ! i) (cond_inputs ! i) dt])
         else Inl IndexOutOfRange)
      else Inr probs)"
  by pat_completeness auto
termination
  by (relation "measure (\<lambda>(lp, states, cs, ci, dt, i, probs). length states - i)") auto

definition log_probabilities ::
  "('s \<Rightarrow> 's \<Rightarrow> 'i \<Rightarrow> 'r \<Rightarrow> 'r) \<Rightarrow> 's list \<Rightarrow> 's list \<Rightarrow> 'i list \<Rightarrow> 'r \<Rightarrow> error + 'r list" where
  "log_probabilities log_probability states cond_states cond_inputs dt =
     (if length states \<noteq> length cond_inputs then Inl AssertionFailed
      else log_probabilities_loop log_probability states cond_states cond_inputs dt 0 [])"

text \<open>
  \<open>probabilities\<close> hands \<open>cond_inputs\<close> to \<open>log_probabilities\<close> in the place of
  \<open>cond_states\<close> too, which the source can only do where \<open>State\<close> and \<open>Input\<close> are one
  type: hence the single type \<open>'s\<close>.  \<open>.exp()\<close> is elementwise.
\<close>

definition probabilities ::
  "('s \<Rightarrow> 's \<Rightarrow> 's \<Rightarrow> 'r \<Rightarrow> 'r) \<Rightarrow> ('r \<Rightarrow> 'r) \<Rightarrow> 's list \<Rightarrow> 's list \<Rightarrow> 's list \<Rightarrow> 'r \<Rightarrow>
   error + 'r list" where
  "probabilities log_probability exp_fp states cond_states cond_inputs dt =
     (case log_probabilities log_probability states cond_inputs cond_inputs dt of
        Inl e \<Rightarrow> Inl e
      | Inr probs \<Rightarrow> Inr (map exp_fp probs))"

section \<open>Scalars, vectors and matrices of the Eigen library\<close>

text \<open>
  The Eigen library is not part of the repository.  The classes built on it are
  modelled over three type variables, \<open>'s\<close> for the scalar (\<open>Real\<close>, \<open>Scalar\<close>,
  \<open>double\<close>), \<open>'v\<close> for a column vector and \<open>'m\<close> for a matrix, and take the
  library's operations as the fields of one record.  No law is assumed of any field, so
  whatever is proved of a class holds for every arithmetic, rounding and non-finite values
  included.  \<open>s_lit\<close> reads a literal of the source, \<open>s_of_nat\<close> converts a size,
  \<open>v_get\<close> and \<open>v_set\<close> are coefficient access, \<open>v_rowmul v M\<close> is the row
  \<open>v\<^sup>T M\<close>, \<open>v_dot u v\<close> the product of a row by a column, \<open>v_outer u v\<close> the
  matrix \<open>u v\<^sup>T\<close>, \<open>m_vec\<close> a matrix times a column.  \<open>solve_m\<close> and \<open>solve_v\<close>
  are the library helper \<open>solve(M, X)\<close> at a matrix and at a vector right-hand side.
\<close>

record ('s, 'v, 'm) eigen =
  s_add :: "'s \<Rightarrow> 's \<Rightarrow> 's"
  s_sub :: "'s \<Rightarrow> 's \<Rightarrow> 's"
  s_mul :: "'s \<Rightarrow> 's \<Rightarrow> 's"
  s_neg :: "'s \<Rightarrow> 's"
  s_lit :: "real \<Rightarrow> 's"
  s_of_nat :: "nat \<Rightarrow> 's"
  s_log :: "'s \<Rightarrow> 's"
  s_sqrt :: "'s \<Rightarrow> 's"
  s_fabs :: "'s \<Rightarrow> 's"
  s_infinity :: "'s"
  s_isfinite :: "'s \<Rightarrow> bool"
  v_size :: "'v \<Rightarrow> nat"
  v_get :: "'v \<Rightarrow> nat \<Rightarrow> 's"
  v_set :: "'v \<Rightarrow> nat \<Rightarrow> 's \<Rightarrow> 'v"
  v_zero :: "nat \<Rightarrow> 'v"
  v_add :: "'v \<Rightarrow> 'v \<Rightarrow> 'v"
  v_sub :: "'v \<Rightarrow> 'v \<Rightarrow> 'v"
  v_scale :: "'s \<Rightarrow> 'v \<Rightarrow> 'v"
  v_middleRows :: "'v \<Rightarrow> nat \<Rightarrow> nat \<Rightarrow> 'v"
  v_rowmul :: "'v \<Rightarrow> 'm \<Rightarrow> 'v"
  v_dot :: "'v \<Rightarrow> 'v \<Rightarrow> 's"
  v_outer :: "'v \<Rightarrow> 'v \<Rightarrow> 'm"
  m_rows :: "'m \<Rightarrow> nat"
  m_identity :: "nat \<Rightarrow> 'm"
  m_add :: "'m \<Rightarrow> 'm \<Rightarrow> 'm"
  m_sub :: "'m \<Rightarrow> 'm \<Rightarrow> 'm"
  m_mul :: "'m \<Rightarrow> 'm \<Rightarrow> 'm"
  m_scale :: "'s \<Rightarrow> 'm \<Rightarrow> 'm"
  m_vec :: "'m \<Rightarrow> 'v \<Rightarrow> 'v"
  m_transpose :: "'m \<Rightarrow> 'm"
  m_inverse :: "'m \<Rightarrow> 'm"
  m_determinant :: "'m \<Rightarrow> 's"
  m_asDiagonal :: "'v \<Rightarrow> 'm"
  ldlt_matrixL :: "'m \<Rightarrow> 'm"
  ldlt_vectorD :: "'m \<Rightarrow> 'v"
  ldlt_transpositionsP :: "'m \<Rightarrow> 'm"
  qr_rank :: "'m \<Rightarrow> nat"
  solve_m :: "'m \<Rightarrow> 'm \<Rightarrow> 'm"
  solve_v :: "'m \<Rightarrow> 'v \<Rightarrow> 'v"

section \<open>ff::Gaussian (fast\_filtering/distributions/gaussian.hpp)\<close>

text \<open>
  The private members of the class (\<open>ff_mean\<close> is \<open>mean_\<close>, and so on), and \<open>ff_dimension\<close> for the
  dimension that the base class \<open>GaussianMap\<close> stores and \<open>Dimension()\<close> returns.
\<close>

record ('s, 'v, 'm) ff_Gaussian =
  ff_dimension :: nat
  ff_mean :: 'v
  ff_covariance :: 'm
  ff_full_rank :: bool
  ff_precision :: 'm
  ff_cholesky_factor :: 'm
  ff_log_normalizer :: 's

definition Dimension :: "('s, 'v, 'm) ff_Gaussian \<Rightarrow> nat" where
  "Dimension g = ff_dimension g"

definition Mean :: "('s, 'v, 'm) ff_Gaussian \<Rightarrow> 'v \<Rightarrow> ('s, 'v, 'm) ff_Gaussian" where
  "Mean g mean = g\<lparr>ff_mean := mean\<rparr>"

text \<open>
  The loop of \<open>Covariance\<close> over the diagonal of the decomposition,
  \<^verbatim>\<open>for (i = 0; i < D_sqrt.rows(); i++) D_sqrt(i) = sqrt(fabs(D_sqrt(i)))\<close>;
  \<open>n\<close> is \<open>D_sqrt.rows()\<close>, which writing a coefficient does not change.
\<close>

function D_sqrt_loop :: "('s, 'v, 'm) eigen \<Rightarrow> nat \<Rightarrow> nat \<Rightarrow> 'v \<Rightarrow> 'v" where
  "D_sqrt_loop E n i D_sqrt =
     (if i < n then
        D_sqrt_loop E n (Suc i)
          (v_set E D_sqrt i (s_sqrt E (s_fabs E (v_get E D_sqrt i))))
      else D_sqrt)"
  by pat_completeness auto
termination
  by (relation "measure (\<lambda>(E, n, i, D). n - i)") auto

text \<open>
  The setter of the covariance: the square root from the \<open>LDLT\<close> decomposition, then
  the rank check.  Only where the rank equals the number of rows are \<open>ff_precision\<close> and
  \<open>ff_log_normalizer\<close> written; otherwise they keep what they held.
\<close>

definition Covariance ::
  "('s, 'v, 'm) eigen \<Rightarrow> ('s, 'v, 'm) ff_Gaussian \<Rightarrow> 'm \<Rightarrow> ('s, 'v, 'm) ff_Gaussian" where
  "Covariance E g covariance =
     (let g1 = g\<lparr>ff_covariance := covariance\<rparr>;
          L = ldlt_matrixL E (ff_covariance g1);
          D = ldlt_vectorD E (ff_covariance g1);
          D_sqrt = D_sqrt_loop E (v_size E D) 0 D;
          g2 = g1\<lparr>ff_cholesky_factor :=
                 m_mul E (m_mul E (m_transpose E (ldlt_transpositionsP E (ff_covariance g1))) L)
                         (m_asDiagonal E D_sqrt)\<rparr>
      in if qr_rank E covariance = m_rows E covariance
         then g2\<lparr>ff_full_rank := True,
                 ff_precision := m_inverse E (ff_covariance g2),
                 ff_log_normalizer :=
                   s_mul E (s_neg E (s_lit E 0.5))
                     (s_add E (s_log E (m_determinant E (ff_covariance g2)))
                        (s_mul E (s_of_nat E (m_rows E covariance))
                           (s_log E (s_mul E (s_lit E 2.0) (s_lit E pi)))))\<rparr>
         else g2\<lparr>ff_full_rank := False\<rparr>)"

definition SetUnit ::
  "('s, 'v, 'm) eigen \<Rightarrow> ('s, 'v, 'm) ff_Gaussian \<Rightarrow> ('s, 'v, 'm) ff_Gaussian" where
  "SetUnit E g =
     (let g1 = g\<lparr>ff_full_rank := True\<rparr>;
          g2 = Mean g1 (v_zero E (Dimension g1))
      in Covariance E g2 (m_identity E (Dimension g2)))"

text \<open>
  The constructor sizes the members and calls \<open>SetUnit\<close>; \<open>raw\<close> is the object
  before it, whose members hold nothing yet.
\<close>

definition Gaussian ::
  "('s, 'v, 'm) eigen \<Rightarrow> ('s, 'v, 'm) ff_Gaussian \<Rightarrow> nat \<Rightarrow> ('s, 'v, 'm) ff_Gaussian" where
  "Gaussian E raw dimension = SetUnit E (raw\<lparr>ff_dimension := dimension\<rparr>)"

definition MapStandardGaussian ::
  "('s, 'v, 'm) eigen \<Rightarrow> ('s, 'v, 'm) ff_Gaussian \<Rightarrow> 'v \<Rightarrow> 'v" where
  "MapStandardGaussian E g sample = v_add E (ff_mean g) (m_vec E (ff_cholesky_factor g) sample)"

text \<open>
  \<^verbatim>\<open>log_normalizer_ - 0.5 * (vector - mean_).transpose() * precision_ * (vector - mean_)\<close>,
  the products taken from the left as C++ does, or minus infinity.
\<close>

definition LogProbability ::
  "('s, 'v, 'm) eigen \<Rightarrow> ('s, 'v, 'm) ff_Gaussian \<Rightarrow> 'v \<Rightarrow> 's" where
  "LogProbability E g vector =
     (if ff_full_rank g then
        s_sub E (ff_log_normalizer g)
          (v_dot E
             (v_rowmul E (v_scale E (s_lit E 0.5) (v_sub E vector (ff_mean g))) (ff_precision g))
             (v_sub E vector (ff_mean g)))
      else s_neg E (s_infinity E))"

text \<open>
  The calls that change a Gaussian after its construction, and a run of them in order.
\<close>

datatype ('v, 'm) gaussian_call = CallMean 'v | CallCovariance 'm | CallSetUnit

fun apply_call ::
  "('s, 'v, 'm) eigen \<Rightarrow> ('s, 'v, 'm) ff_Gaussian \<Rightarrow> ('v, 'm) gaussian_call \<Rightarrow>
   ('s, 'v, 'm) ff_Gaussian" where
  "apply_call E g (CallMean m) = Mean g m"
| "apply_call E g (CallCovariance S) = Covariance E g S"
| "apply_call E g CallSetUnit = SetUnit E g"

fun run_calls ::
  "('s, 'v, 'm) eigen \<Rightarrow> ('s, 'v, 'm) ff_Gaussian \<Rightarrow> ('v, 'm) gaussian_call list \<Rightarrow>
   ('s, 'v, 'm) ff_Gaussian" where
  "run_calls E g [] = g"
| "run_calls E g (c # calls) = run_calls E (apply_call E g c) calls"

text \<open>
  The covariance and the mean that were set most recently, read off the calls alone:
  \<open>S\<close> and \<open>m\<close> are the ones set before the run, \<open>SetUnit\<close> sets the identity and
  the zero vector of the dimension \<open>n\<close>.
\<close>

fun last_covariance ::
  "('s, 'v, 'm) eigen \<Rightarrow> nat \<Rightarrow> 'm \<Rightarrow> ('v, 'm) gaussian_call list \<Rightarrow> 'm" where
  "last_covariance E n S [] = S"
| "last_covariance E n S (CallMean m # calls) = last_covariance E n S calls"
| "last_covariance E n S (CallCovariance S' # calls) = last_covariance E n S' calls"
| "last_covariance E n S (CallSetUnit # calls) = last_covariance E n (m_identity E n) calls"

fun last_mean ::
  "('s, 'v, 'm) eigen \<Rightarrow> nat \<Rightarrow> 'v \<Rightarrow> ('v, 'm) gaussian_call list \<Rightarrow> 'v" where
  "last_mean E n m [] = m"
| "last_mean E n m (CallMean m' # calls) = last_mean E n m' calls"
| "last_mean E n m (CallCovariance S # calls) = last_mean E n m calls"
| "last_mean E n m (CallSetUnit # calls) = last_mean E n (v_zero E n) calls"

text \<open>
  The log-density that the specification gives for a covariance \<open>S\<close> and a mean \<open>m\<close>:
  the normalizer \<open>-0.5 (log det S + n log 2\<pi>)\<close> and the quadratic form in the
  precision \<open>S\<^sup>-\<^sup>1\<close> where the rank check finds \<open>S\<close> of full rank, minus infinity
  otherwise.
\<close>

definition spec_log_normalizer :: "('s, 'v, 'm) eigen \<Rightarrow> 'm \<Rightarrow> 's" where
  "spec_log_normalizer E S =
     s_mul E (s_neg E (s_lit E 0.5))
       (s_add E (s_log E (m_determinant E S))
          (s_mul E (s_of_nat E (m_rows E S)) (s_log E (s_mul E (s_lit E 2.0) (s_lit E pi)))))"

definition spec_log_density :: "('s, 'v, 'm) eigen \<Rightarrow> 'm \<Rightarrow> 'v \<Rightarrow> 'v \<Rightarrow> 's" where
  "spec_log_density E S m x =
     (if qr_rank E S = m_rows E S then
        s_sub E (spec_log_normalizer E S)
          (v_dot E (v_rowmul E (v_scale E (s_lit E 0.5) (v_sub E x m)) (m_inverse E S))
                   (v_sub E x m))
      else s_neg E (s_infinity E))"

text \<open>
  What the members of a Gaussian hold once the covariance \<open>S\<close> and the mean \<open>m\<close> are
  the ones set most recently: the flag is the outcome of the rank check on \<open>S\<close>, and
  where it is set the precision and the normalizer are those of \<open>S\<close>.
\<close>

definition tracks ::
  "('s, 'v, 'm) eigen \<Rightarrow> ('s, 'v, 'm) ff_Gaussian \<Rightarrow> 'm \<Rightarrow> 'v \<Rightarrow> nat \<Rightarrow> bool" where
  "tracks E g S m n \<longleftrightarrow>
     ff_dimension g = n \<and> ff_mean g = m \<and> ff_full_rank g = (qr_rank E S = m_rows E S) \<and>
     (qr_rank E S = m_rows E S \<longrightarrow>
        ff_precision g = m_inverse E S \<and> ff_log_normalizer g = spec_log_normalizer E S)"

section \<open>Arithmetic without rounding\<close>

text \<open>
  Exact real arithmetic with one more value, for the instances on which the classes are
  run below: \<open>None\<close> is the result that is not a number, which a division by zero and
  the square root of a negative number produce and which every operation passes on.
  This is not the arithmetic of the machine; where it is used, it is named.
\<close>

type_synonym Real = "real option"

definition fp_add :: "Real \<Rightarrow> Real \<Rightarrow> Real" where
  "fp_add a b = (case a of None \<Rightarrow> None
                 | Some x \<Rightarrow> (case b of None \<Rightarrow> None | Some y \<Rightarrow> Some (x + y)))"

definition fp_sub :: "Real \<Rightarrow> Real \<Rightarrow> Real" where
  "fp_sub a b = (case a of None \<Rightarrow> None
                 | Some x \<Rightarrow> (case b of None \<Rightarrow> None | Some y \<Rightarrow> Some (x - y)))"

definition fp_mul :: "Real \<Rightarrow> Real \<Rightarrow> Real" where
  "fp_mul a b = (case a of None \<Rightarrow> None
                 | Some x \<Rightarrow> (case b of None \<Rightarrow> None | Some y \<Rightarrow> Some (x * y)))"

definition fp_div :: "real \<Rightarrow> real \<Rightarrow> Real" where
  "fp_div x y = (if y = 0 then None else Some (x / y))"

definition fp_sqrt :: "real \<Rightarrow> Real" where
  "fp_sqrt x = (if x < 0 then None else Some (sqrt x))"

definition fp_quot :: "Real \<Rightarrow> Real \<Rightarrow> Real" where
  "fp_quot a b = (case a of None \<Rightarrow> None
                  | Some x \<Rightarrow> (case b of None \<Rightarrow> None | Some y \<Rightarrow> fp_div x y))"

definition fp_root :: "Real \<Rightarrow> Real" where
  "fp_root a = (case a of None \<Rightarrow> None | Some x \<Rightarrow> fp_sqrt x)"

section \<open>Machine integers\<close>

text \<open>
  The type \<open>int\<close> of the source has 32 bits.  \<open>int32 x\<close> is the value that a result
  \<open>x\<close> has in that type: it wraps around, so that \<open>2147483647 + 1\<close> is
  \<open>-2147483648\<close>.  Every sum, difference and product of two \<open>int\<close> below is taken
  through it.
\<close>

definition int32 :: "int \<Rightarrow> int" where
  "int32 x = (x + 2147483648) mod 4294967296 - 2147483648"

section \<open>The arithmetic of the unscented transform\<close>

text \<open>
  The scalar type \<open>Real\<close> of the transform is a floating-point type.  Its operations
  are parameters, a record of them, and nothing is assumed of them: neither that they
  are exact nor any law of algebra.  What is proved of the transform for every such
  record therefore holds in the arithmetic of the machine, with its rounding, its
  infinities and its NaN.  \<open>a_lit\<close> is a literal of the source (\<open>1\<close>, \<open>1.\<close>,
  \<open>2.\<close>) and \<open>a_of_int\<close> the conversion \<open>Real(i)\<close> of an \<open>int\<close>.
\<close>

record 's arith =
  a_add :: "'s \<Rightarrow> 's \<Rightarrow> 's"
  a_sub :: "'s \<Rightarrow> 's \<Rightarrow> 's"
  a_mul :: "'s \<Rightarrow> 's \<Rightarrow> 's"
  a_div :: "'s \<Rightarrow> 's \<Rightarrow> 's"
  a_sqrt :: "'s \<Rightarrow> 's"
  a_lit :: "real \<Rightarrow> 's"
  a_of_int :: "int \<Rightarrow> 's"

text \<open>
  Vectors are lists of coefficients and a matrix is the list of its columns.
  \<open>col\<close> is Eigen's \<open>col(j)\<close>, which checks its index; \<open>mat_scale\<close> is a matrix
  times a scalar, \<open>vec_add\<close> and \<open>vec_sub\<close> are \<open>+\<close> and \<open>-\<close> on vectors of one
  size: each coefficient of the result is one operation on scalars.
\<close>

definition vec_add :: "'s arith \<Rightarrow> 's list \<Rightarrow> 's list \<Rightarrow> 's list" where
  "vec_add A u v = map2 (a_add A) u v"

definition vec_sub :: "'s arith \<Rightarrow> 's list \<Rightarrow> 's list \<Rightarrow> 's list" where
  "vec_sub A u v = map2 (a_sub A) u v"

definition mat_scale :: "'s arith \<Rightarrow> 's list list \<Rightarrow> 's \<Rightarrow> 's list list" where
  "mat_scale A m g = map (map (\<lambda>s. a_mul A s g)) m"

definition col :: "'a list list \<Rightarrow> int \<Rightarrow> error + 'a list" where
  "col m j = (if 0 \<le> j \<and> j < int (length m) then Inr (m ! nat j) else Inl IndexOutOfRange)"

section \<open>Gaussian belief and point set of the transform\<close>

text \<open>
  Modelled from the spec: the classes \<open>fl::Gaussian\<close> and \<open>fl::PointSet\<close>, whose
  headers are not among the sources.  A belief exposes \<open>mean()\<close>, \<open>square_root()\<close>
  and \<open>dimension()\<close> (here \<open>gaussian_mean\<close>, \<open>gaussian_square_root\<close> and
  \<open>gaussian_dimension\<close>), the dimension being the size of the mean as an \<open>int\<close>.  A
  point set is an ordered sequence of points, each with a weight for the mean and a
  weight for the covariance, of a fixed or a dynamic count: \<open>NumberOfPoints\<close> is the
  count fixed in the type, or \<open>Dynamic\<close>.  A slot holds \<open>None\<close> until
  \<open>point(i, p, w)\<close> writes it.  \<open>write_log\<close> is not a member of the class: it records
  the indices that \<open>point\<close> wrote, in order, so that one can say how often an index is
  written.
\<close>

record 's fl_Gaussian =
  gaussian_mean :: "'s list"
  gaussian_square_root :: "'s list list"

definition gaussian_dimension :: "'s fl_Gaussian \<Rightarrow> int" where
  "gaussian_dimension g = int32 (int (length (gaussian_mean g)))"

record 's Weight =
  w_mean :: 's
  w_cov :: 's

record 's PointSet =
  NumberOfPoints :: int
  slots :: "('s list \<times> 's Weight) option list"
  write_log :: "int list"

definition Dynamic :: int where
  "Dynamic = -1"

definition IsFixed :: "int \<Rightarrow> bool" where
  "IsFixed n = (n \<noteq> Dynamic)"

text \<open>
  A call either completes or ends in a failure; either way the point set is left as the
  call made it, and that is the second component.
\<close>

type_synonym 'a outcome = "error option \<times> 'a"

definition then_do :: "'a outcome \<Rightarrow> ('a \<Rightarrow> 'a outcome) \<Rightarrow> 'a outcome" where
  "then_do r f = (case r of (None, s) \<Rightarrow> f s | (Some e, s) \<Rightarrow> (Some e, s))"

definition resize :: "int \<Rightarrow> 's PointSet \<Rightarrow> 's PointSet outcome" where
  "resize n ps =
     (if int (length (slots ps)) = n then (None, ps)
      else if IsFixed (NumberOfPoints ps) then (Some ResizingFixedSizeEntityException, ps)
      else (None, ps\<lparr>slots := replicate (nat n) None\<rparr>))"

definition point :: "int \<Rightarrow> 's list \<Rightarrow> 's Weight \<Rightarrow> 's PointSet \<Rightarrow> 's PointSet outcome" where
  "point i p w ps =
     (if 0 \<le> i \<and> i < int (length (slots ps))
      then (None, ps\<lparr>slots := (slots ps)[nat i := Some (p, w)],
                      write_log := write_log ps @ [i]\<rparr>)
      else (Some IndexOutOfRange, ps))"

section \<open>UnscentedTransform (unscented\_transform.hpp)\<close>

text \<open>
  The members \<open>alpha_\<close>, \<open>beta_\<close> and \<open>kappa_\<close>; \<open>dim'\<close> below is the
  argument \<open>dim\<close> of the source.  \<open>number_of_points\<close> computes in \<open>int\<close>: at the
  dimension \<open>2\<^sup>3\<^sup>0\<close> its result is \<open>-2147483647\<close>.
\<close>

record 's UnscentedTransform =
  alpha :: 's
  beta :: 's
  kappa :: 's

definition number_of_points :: "int \<Rightarrow> int" where
  "number_of_points dimension =
     (if dimension \<noteq> Dynamic then int32 (int32 (2 * dimension) + 1) else Dynamic)"

definition lambda_scalar :: "'s arith \<Rightarrow> 's UnscentedTransform \<Rightarrow> 's \<Rightarrow> 's" where
  "lambda_scalar A ut dim' =
     a_sub A (a_mul A (a_mul A (alpha ut) (alpha ut)) (a_add A dim' (kappa ut))) dim'"

definition weight_mean_0 :: "'s arith \<Rightarrow> 's UnscentedTransform \<Rightarrow> 's \<Rightarrow> 's" where
  "weight_mean_0 A ut dim' =
     a_div A (lambda_scalar A ut dim') (a_add A dim' (lambda_scalar A ut dim'))"

definition weight_cov_0 :: "'s arith \<Rightarrow> 's UnscentedTransform \<Rightarrow> 's \<Rightarrow> 's" where
  "weight_cov_0 A ut dim' =
     a_add A (weight_mean_0 A ut dim')
       (a_add A (a_sub A (a_lit A 1) (a_mul A (alpha ut) (alpha ut))) (beta ut))"

definition weight_mean_i :: "'s arith \<Rightarrow> 's UnscentedTransform \<Rightarrow> 's \<Rightarrow> 's" where
  "weight_mean_i A ut dim' =
     a_div A (a_lit A 1) (a_mul A (a_lit A 2) (a_add A dim' (lambda_scalar A ut dim')))"

definition weight_cov_i :: "'s arith \<Rightarrow> 's UnscentedTransform \<Rightarrow> 's \<Rightarrow> 's" where
  "weight_cov_i A ut dim' = weight_mean_i A ut dim'"

definition gamma_factor :: "'s arith \<Rightarrow> 's UnscentedTransform \<Rightarrow> 's \<Rightarrow> 's" where
  "gamma_factor A ut dim' = a_sqrt A (a_add A dim' (lambda_scalar A ut dim'))"

text \<open>
  \<^verbatim>\<open>for (int i = start; i < limit; ++i) body\<close>, ended by the first failure of the
  body.  The counter stays below \<open>limit\<close>, which is an \<open>int\<close>, so that \<open>++i\<close> does
  not wrap around.
\<close>

function for_loop :: "int \<Rightarrow> int \<Rightarrow> (int \<Rightarrow> 'a \<Rightarrow> 'a outcome) \<Rightarrow> 'a \<Rightarrow> 'a outcome" where
  "for_loop i limit body s =
     (if i < limit then
        (case body i s of
           (None, s') \<Rightarrow> for_loop (i + 1) limit body s'
         | (Some e, s') \<Rightarrow> (Some e, s'))
      else (None, s))"
  by pat_completeness auto
termination
  by (relation "measure (\<lambda>(i, limit, body, s). nat (limit - i))") auto

text \<open>
  \<open>forward(gaussian, global_dimension, dimension_offset, point_set)\<close>.  The
  conversion of \<open>dim\<close> back to \<open>int\<close> for \<open>number_of_points\<close> gives
  \<open>global_dimension\<close> again.  The three loops are those of the source; the last one
  has the bound \<open>i <= limit_3\<close>, which is \<open>i < limit_3 + 1\<close> since a call that gets
  past the assertion has \<open>limit_3\<close> below the largest \<open>int\<close>.  The sum and the
  difference in the second loop are where Eigen checks that the mean and the column
  have one size.
\<close>

definition forward ::
  "'s arith \<Rightarrow> 's UnscentedTransform \<Rightarrow> 's fl_Gaussian \<Rightarrow> int \<Rightarrow> int \<Rightarrow> 's PointSet \<Rightarrow>
   's PointSet outcome" where
  "forward A ut gaussian global_dimension dimension_offset point_set =
     (let dim' = a_of_int A global_dimension;
          point_count = number_of_points global_dimension
      in if \<not> point_count > 0 then (Some AssertionFailed, point_set)
         else if IsFixed (NumberOfPoints point_set) \<and> NumberOfPoints point_set \<noteq> point_count
         then (Some WrongSizeException, point_set)
         else
           then_do (resize point_count point_set) (\<lambda>point_set.
             let covariance_sqrt =
                   mat_scale A (gaussian_square_root gaussian) (gamma_factor A ut dim');
                 mean = gaussian_mean gaussian;
                 weight_i = \<lparr>w_mean = weight_mean_i A ut dim', w_cov = weight_cov_i A ut dim'\<rparr>;
                 start_1 = 1;
                 limit_1 = int32 (start_1 + dimension_offset);
                 limit_2 = int32 (limit_1 + gaussian_dimension gaussian);
                 limit_3 = global_dimension
             in
               then_do
                 (point 0 mean
                    \<lparr>w_mean = weight_mean_0 A ut dim', w_cov = weight_cov_0 A ut dim'\<rparr>
                    point_set)
                 (\<lambda>point_set.
               then_do
                 (for_loop start_1 limit_1
                    (\<lambda>i point_set.
                       then_do (point i mean weight_i point_set)
                         (point (int32 (global_dimension + i)) mean weight_i))
                    point_set)
                 (\<lambda>point_set.
               then_do
                 (for_loop limit_1 limit_2
                    (\<lambda>i point_set.
                       case col covariance_sqrt (int32 (int32 (i - dimension_offset) - 1)) of
                         Inl e \<Rightarrow> (Some e, point_set)
                       | Inr point_shift \<Rightarrow>
                           if length point_shift \<noteq> length mean
                           then (Some AssertionFailed, point_set)
                           else
                             then_do
                               (point i (vec_add A mean point_shift) weight_i point_set)
                               (point (int32 (global_dimension + i))
                                  (vec_sub A mean point_shift) weight_i))
                    point_set)
                 (\<lambda>point_set.
                  for_loop limit_2 (limit_3 + 1)
                    (\<lambda>i point_set.
                       then_do (point i mean weight_i point_set)
                         (point (int32 (global_dimension + i)) mean weight_i))
                    point_set)))))"

section \<open>The calls of point that forward makes\<close>

text \<open>
  What follows serves the proofs about \<open>forward\<close>.  A belief is well formed where
  its square root is square and of the size of its mean, a size that is an \<open>int\<close>; a
  point set is well formed where a fixed count is the number of its slots.
\<close>

definition gaussian_ok :: "'s fl_Gaussian \<Rightarrow> bool" where
  "gaussian_ok g \<longleftrightarrow>
     length (gaussian_square_root g) = length (gaussian_mean g) \<and>
     list_all (\<lambda>c. length c = length (gaussian_mean g)) (gaussian_square_root g) \<and>
     int (length (gaussian_mean g)) \<le> 2147483647"

definition point_set_ok :: "'s PointSet \<Rightarrow> bool" where
  "point_set_ok ps \<longleftrightarrow>
     (IsFixed (NumberOfPoints ps) \<longrightarrow> int (length (slots ps)) = NumberOfPoints ps)"

text \<open>
  \<open>run_list\<close> runs a loop body over a list of indices, \<open>apply_writes\<close> makes a
  list of calls \<open>point(i, p, w)\<close> in order, both up to the first failure, and
  \<open>write_slot\<close> is the effect of one call on the slots.
\<close>

primrec run_list :: "int list \<Rightarrow> (int \<Rightarrow> 'a \<Rightarrow> 'a outcome) \<Rightarrow> 'a \<Rightarrow> 'a outcome" where
  "run_list [] body s = (None, s)"
| "run_list (i # rest) body s = then_do (body i s) (run_list rest body)"

primrec apply_writes ::
  "(int \<times> 's list \<times> 's Weight) list \<Rightarrow> 's PointSet \<Rightarrow> 's PointSet outcome" where
  "apply_writes [] ps = (None, ps)"
| "apply_writes (x # xs) ps =
     then_do (point (fst x) (fst (snd x)) (snd (snd x)) ps) (apply_writes xs)"

definition write_slot ::
  "('s list \<times> 's Weight) option list \<Rightarrow> int \<times> 's list \<times> 's Weight \<Rightarrow>
   ('s list \<times> 's Weight) option list" where
  "write_slot sl x = sl[nat (fst x) := Some (snd x)]"

text \<open>
  The calls of \<open>forward\<close> in the order of the source: point \<open>0\<close>, then for every
  \<open>i\<close> of the three loops the points \<open>i\<close> and \<open>global_dimension + i\<close>.
  \<open>point_shift_of\<close> is column \<open>j\<close> of the scaled square root, \<open>weight_0\<close> and
  \<open>weight_i\<close> are the two weights.
\<close>

definition point_shift_of ::
  "'s arith \<Rightarrow> 's UnscentedTransform \<Rightarrow> 's fl_Gaussian \<Rightarrow> int \<Rightarrow> int \<Rightarrow> 's list" where
  "point_shift_of A ut g global_dimension j =
     map (\<lambda>s. a_mul A s (gamma_factor A ut (a_of_int A global_dimension)))
       (gaussian_square_root g ! nat j)"

definition weight_0 :: "'s arith \<Rightarrow> 's UnscentedTransform \<Rightarrow> int \<Rightarrow> 's Weight" where
  "weight_0 A ut n = \<lparr>w_mean = weight_mean_0 A ut (a_of_int A n),
                      w_cov = weight_cov_0 A ut (a_of_int A n)\<rparr>"

definition weight_i :: "'s arith \<Rightarrow> 's UnscentedTransform \<Rightarrow> int \<Rightarrow> 's Weight" where
  "weight_i A ut n = \<lparr>w_mean = weight_mean_i A ut (a_of_int A n),
                      w_cov = weight_cov_i A ut (a_of_int A n)\<rparr>"

definition mean_pair ::
  "'s list \<Rightarrow> 's Weight \<Rightarrow> int \<Rightarrow> int \<Rightarrow> (int \<times> 's list \<times> 's Weight) list" where
  "mean_pair m w n i = [(i, m, w), (n + i, m, w)]"

definition point_calls ::
  "'s arith \<Rightarrow> 's UnscentedTransform \<Rightarrow> 's fl_Gaussian \<Rightarrow> int \<Rightarrow> int \<Rightarrow>
   (int \<times> 's list \<times> 's Weight) list" where
  "point_calls A ut g n off =
     (let m = gaussian_mean g;
          w = \<lparr>w_mean = weight_mean_i A ut (a_of_int A n),
               w_cov = weight_cov_i A ut (a_of_int A n)\<rparr>
      in (0, m, \<lparr>w_mean = weight_mean_0 A ut (a_of_int A n),
                 w_cov = weight_cov_0 A ut (a_of_int A n)\<rparr>)
         # concat (map (mean_pair m w n) [1..off])
         @ concat (map (\<lambda>i. [(i, vec_add A m (point_shift_of A ut g n (i - off - 1)), w),
                               (n + i, vec_sub A m (point_shift_of A ut g n (i - off - 1)), w)])
                    [1 + off..off + gaussian_dimension g])
         @ concat (map (mean_pair m w n) [1 + off + gaussian_dimension g..n]))"

text \<open>
  The points that end at the indices \<open>i\<close> and \<open>global_dimension + i\<close>, for
  \<open>i\<close> from 1 to \<open>global_dimension\<close>, and the slots after the resize and after all
  the calls.
\<close>

definition plus_point ::
  "'s arith \<Rightarrow> 's UnscentedTransform \<Rightarrow> 's fl_Gaussian \<Rightarrow> int \<Rightarrow> int \<Rightarrow> int \<Rightarrow> 's list" where
  "plus_point A ut g n off i =
     (if off < i \<and> i \<le> off + gaussian_dimension g
      then vec_add A (gaussian_mean g) (point_shift_of A ut g n (i - off - 1))
      else gaussian_mean g)"

definition minus_point ::
  "'s arith \<Rightarrow> 's UnscentedTransform \<Rightarrow> 's fl_Gaussian \<Rightarrow> int \<Rightarrow> int \<Rightarrow> int \<Rightarrow> 's list" where
  "minus_point A ut g n off i =
     (if off < i \<and> i \<le> off + gaussian_dimension g
      then vec_sub A (gaussian_mean g) (point_shift_of A ut g n (i - off - 1))
      else gaussian_mean g)"

definition resized_slots :: "int \<Rightarrow> 's PointSet \<Rightarrow> ('s list \<times> 's Weight) option list" where
  "resized_slots n ps =
     (if int (length (slots ps)) = 2 * n + 1 then slots ps
      else replicate (nat (2 * n + 1)) None)"

definition final_slots ::
  "'s arith \<Rightarrow> 's UnscentedTransform \<Rightarrow> 's fl_Gaussian \<Rightarrow> int \<Rightarrow> int \<Rightarrow> 's PointSet \<Rightarrow>
   ('s list \<times> 's Weight) option list" where
  "final_slots A ut g n off ps =
     foldl write_slot (resized_slots n ps) (point_calls A ut g n off)"

text \<open>
  The arithmetic without rounding as a record of operations, and in it: a transform and
  a belief of finite parameters and moments, the transform with the default parameters
  of its constructor, a belief of dimension one, and point sets to run the transform
  on, one of dynamic count and one of a fixed count.
\<close>

definition exact_arith :: "Real arith" where
  "exact_arith =
     \<lparr>a_add = fp_add, a_sub = fp_sub, a_mul = fp_mul, a_div = fp_quot, a_sqrt = fp_root,
      a_lit = Some, a_of_int = (\<lambda>i. Some (real_of_int i))\<rparr>"

definition finite_transform :: "real \<Rightarrow> real \<Rightarrow> real \<Rightarrow> Real UnscentedTransform" where
  "finite_transform a b k = \<lparr>alpha = Some a, beta = Some b, kappa = Some k\<rparr>"

definition finite_belief :: "real list \<Rightarrow> real list list \<Rightarrow> Real fl_Gaussian" where
  "finite_belief m S = \<lparr>gaussian_mean = map Some m, gaussian_square_root = map (map Some) S\<rparr>"

definition default_transform :: "Real UnscentedTransform" where
  "default_transform = finite_transform 1 2 0"

definition belief_1d :: "Real fl_Gaussian" where
  "belief_1d = finite_belief [5] [[3]]"

definition dynamic_point_set :: "Real PointSet" where
  "dynamic_point_set = \<lparr>NumberOfPoints = Dynamic, slots = [], write_log = []\<rparr>"

definition fixed_point_set :: "int \<Rightarrow> Real PointSet" where
  "fixed_point_set k = \<lparr>NumberOfPoints = k, slots = replicate (nat k) None, write_log = []\<rparr>"

section \<open>Collaborators of the multi-sensor update policy\<close>

text \<open>
  Modelled from the spec: the belief type, the joint observation model, the quadrature
  and the point sets that the update policy works with, whose headers are not among the
  sources.  Vectors and matrices are those of the Eigen record above.

  A belief exposes and lets one set its dimension, mean and covariance.  The joint model
  is a number of local models with a selector of the current sensor, \<open>sensor_id\<close>, which
  \<open>feature_model.id(i)\<close> sets; the observation of the body and of the tail component,
  the feature projection and the tail weight are those of the selected sensor, and so
  take its number.  The quadrature generates the sigma points of two Gaussians jointly
  and propagates them through a function; a point set has a weighted mean, centered
  points and a vector of covariance weights.
\<close>

record ('v, 'm) Belief =
  belief_dimension :: int
  belief_mean :: 'v
  belief_covariance :: 'm

record ('s, 'v) JointModel =
  count_local_models :: int
  sensor_id :: int
  body_observation :: "int \<Rightarrow> 'v \<Rightarrow> 'v \<Rightarrow> 'v"
  tail_observation :: "int \<Rightarrow> 'v \<Rightarrow> 'v \<Rightarrow> 'v"
  feature_obsrv :: "int \<Rightarrow> 'v \<Rightarrow> 'v"
  tail_weight :: "int \<Rightarrow> 's"

record ('p, 'v, 'm) SigmaPointQuadrature =
  transform_to_points :: "('v, 'm) Belief \<Rightarrow> ('v, 'm) Belief \<Rightarrow> 'p \<times> 'p"
  propagate_points :: "('v \<Rightarrow> 'v \<Rightarrow> 'v) \<Rightarrow> 'p \<Rightarrow> 'p \<Rightarrow> 'p"
  points_mean :: "'p \<Rightarrow> 'v"
  centered_points :: "'p \<Rightarrow> 'm"
  covariance_weights_vector :: "'p \<Rightarrow> 'v"

text \<open>
  A default-constructed Gaussian over \<open>Vector1d\<close>: zero mean and identity covariance
  of dimension one, the unit-variance scalar noise axis.
\<close>

definition noise_distr :: "('s, 'v, 'm) eigen \<Rightarrow> ('v, 'm) Belief" where
  "noise_distr E =
     \<lparr>belief_dimension = 1, belief_mean = v_zero E 1, belief_covariance = m_identity E 1\<rparr>"

section \<open>MultiSensorSigmaPointUpdatePolizzle (multi\_sensor\_sigma\_point\_update\_polizzle.hpp)\<close>

text \<open>
  \<open>is_valid(vector, start, end)\<close>: the loop over \<open>k\<close> from \<open>start\<close>, which returns
  false at the first coefficient that is not finite.  The indices are products and sums
  of a sensor number and the dimension of a measurement, none of them negative.
\<close>

function is_valid :: "('s, 'v, 'm) eigen \<Rightarrow> 'v \<Rightarrow> nat \<Rightarrow> nat \<Rightarrow> bool" where
  "is_valid E vector k end =
     (if k < end then
        (if \<not> s_isfinite E (v_get E vector k) then False
         else is_valid E vector (Suc k) end)
      else True)"
  by pat_completeness auto
termination
  by (relation "measure (\<lambda>(E, vector, k, end). end - k)") auto

text \<open>
  The state that the loop over the sensors changes: the accumulators \<open>C\<close> and \<open>D\<close>
  and the model, whose selector the loop sets.
\<close>

record ('s, 'v, 'm) accumulators =
  acc_C :: 'm
  acc_D :: 'v
  acc_model :: "('s, 'v) JointModel"

text \<open>
  The body of the loop for sensor \<open>i\<close>, in the order of the source; each of its two
  \<open>continue\<close> leaves the accumulators as they are.  \<open>X\<close>, \<open>W\<close> and \<open>c_xx_inv\<close>
  are the locals of that name, computed before the loop.
\<close>

definition sensor_step ::
  "('s, 'v, 'm) eigen \<Rightarrow> ('p, 'v, 'm) SigmaPointQuadrature \<Rightarrow> 'v \<Rightarrow> nat \<Rightarrow> 'p \<Rightarrow> 'p \<Rightarrow>
   'm \<Rightarrow> 'm \<Rightarrow> 'm \<Rightarrow> nat \<Rightarrow> ('s, 'v, 'm) accumulators \<Rightarrow> ('s, 'v, 'm) accumulators" where
  "sensor_step E quadrature y dim_y p_X p_Q X W c_xx_inv i st =
     (if \<not> is_valid E y (i * dim_y) (i * dim_y + dim_y) then st
      else
        let feature_model = (acc_model st)\<lparr>sensor_id := int i\<rparr>;
            h_body = (\<lambda>x w.
              let obsrv = body_observation feature_model (sensor_id feature_model) x w;
                  feature = feature_obsrv feature_model (sensor_id feature_model) obsrv
              in feature);
            p_Y_body = propagate_points quadrature h_body p_X p_Q;
            mu_y_body = points_mean quadrature p_Y_body
        in
          if \<not> is_valid E mu_y_body 0 dim_y then st\<lparr>acc_model := feature_model\<rparr>
          else
            let Y_body = centered_points quadrature p_Y_body;
                c_yy_body = m_mul E (m_mul E Y_body W) (m_transpose E Y_body);
                c_xy_body = m_mul E (m_mul E X W) (m_transpose E Y_body);
                h_tail = (\<lambda>x w.
                  let obsrv = tail_observation feature_model (sensor_id feature_model) x w;
                      feature = feature_obsrv feature_model (sensor_id feature_model) obsrv
                  in feature);
                p_Y_tail = propagate_points quadrature h_tail p_X p_Q;
                mu_y_tail = points_mean quadrature p_Y_tail;
                Y_tail = centered_points quadrature p_Y_tail;
                c_yy_tail = m_mul E (m_mul E Y_tail W) (m_transpose E Y_tail);
                c_xy_tail = m_mul E (m_mul E X W) (m_transpose E Y_tail);
                t = tail_weight feature_model (sensor_id feature_model);
                b = s_sub E (s_lit E 1.0) t;
                mu_y = v_add E (v_scale E b mu_y_body) (v_scale E t mu_y_tail);
                m_yy_body = m_add E c_yy_body (v_outer E mu_y_body mu_y_body);
                m_yy_tail = m_add E c_yy_tail (v_outer E mu_y_tail mu_y_tail);
                m_yy = m_add E (m_scale E b m_yy_body) (m_scale E t m_yy_tail);
                c_yy = m_sub E m_yy (v_outer E mu_y mu_y);
                c_xy = m_add E (m_scale E b c_xy_body) (m_scale E t c_xy_tail);
                c_yx = m_transpose E c_xy;
                A_i = m_mul E c_yx c_xx_inv;
                c_yy_given_x = m_sub E c_yy (m_mul E (m_mul E c_yx c_xx_inv) c_xy);
                innovation = v_sub E (v_middleRows E y (i * dim_y) dim_y) mu_y
            in st\<lparr>acc_C := m_add E (acc_C st)
                              (m_mul E (m_transpose E A_i) (solve_m E c_yy_given_x A_i)),
                    acc_D := v_add E (acc_D st)
                              (m_vec E (m_transpose E A_i) (solve_v E c_yy_given_x innovation)),
                    acc_model := feature_model\<rparr>)"

text \<open>
  \<^verbatim>\<open>for (int i = 0; i < sensor_count; ++i)\<close> over a loop body.
\<close>

function sensor_loop :: "(nat \<Rightarrow> 'a \<Rightarrow> 'a) \<Rightarrow> nat \<Rightarrow> nat \<Rightarrow> 'a \<Rightarrow> 'a" where
  "sensor_loop body i sensor_count st =
     (if i < sensor_count then sensor_loop body (Suc i) sensor_count (body i st) else st)"
  by pat_completeness auto
termination
  by (relation "measure (\<lambda>(body, i, sensor_count, st). sensor_count - i)") auto

text \<open>
  The three parts of \<open>operator()\<close>.  \<open>update_init\<close> is the part before the loop and
  returns the locals \<open>p_X\<close>, \<open>p_Q\<close>, \<open>mu_x\<close>, \<open>X\<close>, \<open>W\<close> and \<open>c_xx_inv\<close>;
  \<open>update_finalize\<close> is the part after it, the three setters of the posterior in their
  order.  In between, the source divides the size of \<open>y\<close> by the number of sensors,
  asserts that nothing remains, and runs the loop.
\<close>

definition update_init ::
  "('s, 'v, 'm) eigen \<Rightarrow> ('p, 'v, 'm) SigmaPointQuadrature \<Rightarrow> ('v, 'm) Belief \<Rightarrow>
   'p \<times> 'p \<times> 'v \<times> 'm \<times> 'm \<times> 'm" where
  "update_init E quadrature prior_belief =
     (let (p_X, p_Q) = transform_to_points quadrature prior_belief (noise_distr E);
          mu_x = points_mean quadrature p_X;
          X = centered_points quadrature p_X;
          W = m_asDiagonal E (covariance_weights_vector quadrature p_X);
          c_xx = m_mul E (m_mul E X W) (m_transpose E X);
          c_xx_inv = m_inverse E c_xx
      in (p_X, p_Q, mu_x, X, W, c_xx_inv))"

definition update_finalize ::
  "('s, 'v, 'm) eigen \<Rightarrow> ('v, 'm) Belief \<Rightarrow> 'v \<Rightarrow> 'm \<Rightarrow> 'v \<Rightarrow> ('v, 'm) Belief \<Rightarrow>
   ('v, 'm) Belief" where
  "update_finalize E prior_belief mu_x C D posterior_belief =
     (let posterior_belief =
            posterior_belief\<lparr>belief_dimension := belief_dimension prior_belief\<rparr>;
          posterior_belief = posterior_belief\<lparr>belief_covariance := m_inverse E C\<rparr>;
          posterior_belief =
            posterior_belief\<lparr>belief_mean :=
              v_add E mu_x (m_vec E (belief_covariance posterior_belief) D)\<rparr>
      in posterior_belief)"

definition update ::
  "('s, 'v, 'm) eigen \<Rightarrow> ('p, 'v, 'm) SigmaPointQuadrature \<Rightarrow> ('s, 'v) JointModel \<Rightarrow>
   ('v, 'm) Belief \<Rightarrow> 'v \<Rightarrow> ('v, 'm) Belief \<Rightarrow> error + ('v, 'm) Belief \<times> ('s, 'v) JointModel" where
  "update E quadrature obsrv_function prior_belief y posterior_belief =
     (case update_init E quadrature prior_belief of
        (p_X, p_Q, mu_x, X, W, c_xx_inv) \<Rightarrow>
          let C = c_xx_inv;
              D = v_zero E (v_size E mu_x);
              sensor_count = count_local_models obsrv_function
          in
            if sensor_count = 0 then Inl DivisionByZero
            else if \<not> sensor_count dvd int (v_size E y) then Inl AssertionFailed
            else
              let dim_y = nat (int (v_size E y) div sensor_count);
                  st = sensor_loop (sensor_step E quadrature y dim_y p_X p_Q X W c_xx_inv)
                         0 (nat sensor_count)
                         \<lparr>acc_C = C, acc_D = D, acc_model = obsrv_function\<rparr>
              in Inr (update_finalize E prior_belief mu_x (acc_C st) (acc_D st)
                        posterior_belief,
                      acc_model st))"

section \<open>The update as the specification describes it\<close>

text \<open>
  The steps of the specification for one sensor.  \<open>sensor_function\<close> is the function
  that is integrated: an observation of the selected sensor, then its feature
  projection.  \<open>quadrature_moments\<close> propagates the sigma points through it and gives
  the mean, the covariance \<open>Y W Y\<^sup>T\<close> and the cross-covariance \<open>X W Y\<^sup>T\<close>.
\<close>

definition sensor_function ::
  "('s, 'v) JointModel \<Rightarrow> (int \<Rightarrow> 'v \<Rightarrow> 'v \<Rightarrow> 'v) \<Rightarrow> nat \<Rightarrow> 'v \<Rightarrow> 'v \<Rightarrow> 'v" where
  "sensor_function model observation i = (\<lambda>x w. feature_obsrv model (int i) (observation (int i) x w))"

definition quadrature_moments ::
  "('s, 'v, 'm) eigen \<Rightarrow> ('p, 'v, 'm) SigmaPointQuadrature \<Rightarrow> ('v \<Rightarrow> 'v \<Rightarrow> 'v) \<Rightarrow> 'p \<Rightarrow> 'p \<Rightarrow>
   'm \<Rightarrow> 'm \<Rightarrow> 'v \<times> 'm \<times> 'm" where
  "quadrature_moments E quadrature h p_X p_Q X W =
     (let p_Y = propagate_points quadrature h p_X p_Q;
          Y = centered_points quadrature p_Y
      in (points_mean quadrature p_Y,
          m_mul E (m_mul E Y W) (m_transpose E Y),
          m_mul E (m_mul E X W) (m_transpose E Y)))"

definition body_moments ::
  "('s, 'v, 'm) eigen \<Rightarrow> ('p, 'v, 'm) SigmaPointQuadrature \<Rightarrow> ('s, 'v) JointModel \<Rightarrow> 'p \<Rightarrow> 'p \<Rightarrow>
   'm \<Rightarrow> 'm \<Rightarrow> nat \<Rightarrow> 'v \<times> 'm \<times> 'm" where
  "body_moments E quadrature model p_X p_Q X W i =
     quadrature_moments E quadrature (sensor_function model (body_observation model) i)
       p_X p_Q X W"

definition tail_moments ::
  "('s, 'v, 'm) eigen \<Rightarrow> ('p, 'v, 'm) SigmaPointQuadrature \<Rightarrow> ('s, 'v) JointModel \<Rightarrow> 'p \<Rightarrow> 'p \<Rightarrow>
   'm \<Rightarrow> 'm \<Rightarrow> nat \<Rightarrow> 'v \<times> 'm \<times> 'm" where
  "tail_moments E quadrature model p_X p_Q X W i =
     quadrature_moments E quadrature (sensor_function model (tail_observation model) i)
       p_X p_Q X W"

text \<open>
  A sensor contributes where its slice of the measurement is finite and the mean of its
  body branch is finite; otherwise it is skipped.
\<close>

definition sensor_contributes ::
  "('s, 'v, 'm) eigen \<Rightarrow> ('p, 'v, 'm) SigmaPointQuadrature \<Rightarrow> ('s, 'v) JointModel \<Rightarrow> 'v \<Rightarrow> nat \<Rightarrow>
   'p \<Rightarrow> 'p \<Rightarrow> 'm \<Rightarrow> 'm \<Rightarrow> nat \<Rightarrow> bool" where
  "sensor_contributes E quadrature model y dim_y p_X p_Q X W i =
     (is_valid E y (i * dim_y) (i * dim_y + dim_y) \<and>
      is_valid E (fst (body_moments E quadrature model p_X p_Q X W i)) 0 dim_y)"

text \<open>
  The mixture of the body and the tail with \<open>t = tail_weight\<close> and \<open>b = 1 - t\<close>: the
  mean, the covariance by way of the second moments, and the cross-covariance.
\<close>

definition mixture_fuse ::
  "('s, 'v, 'm) eigen \<Rightarrow> 's \<Rightarrow> 'v \<times> 'm \<times> 'm \<Rightarrow> 'v \<times> 'm \<times> 'm \<Rightarrow> 'v \<times> 'm \<times> 'm" where
  "mixture_fuse E t body tail =
     (case body of (mu_y_body, c_yy_body, c_xy_body) \<Rightarrow>
      case tail of (mu_y_tail, c_yy_tail, c_xy_tail) \<Rightarrow>
        let b = s_sub E (s_lit E 1.0) t;
            mu_y = v_add E (v_scale E b mu_y_body) (v_scale E t mu_y_tail);
            m_yy_body = m_add E c_yy_body (v_outer E mu_y_body mu_y_body);
            m_yy_tail = m_add E c_yy_tail (v_outer E mu_y_tail mu_y_tail);
            m_yy = m_add E (m_scale E b m_yy_body) (m_scale E t m_yy_tail)
        in (mu_y,
            m_sub E m_yy (v_outer E mu_y mu_y),
            m_add E (m_scale E b c_xy_body) (m_scale E t c_xy_tail)))"

definition fused_moments ::
  "('s, 'v, 'm) eigen \<Rightarrow> ('p, 'v, 'm) SigmaPointQuadrature \<Rightarrow> ('s, 'v) JointModel \<Rightarrow> 'p \<Rightarrow> 'p \<Rightarrow>
   'm \<Rightarrow> 'm \<Rightarrow> nat \<Rightarrow> 'v \<times> 'm \<times> 'm" where
  "fused_moments E quadrature model p_X p_Q X W i =
     mixture_fuse E (tail_weight model (int i))
       (body_moments E quadrature model p_X p_Q X W i)
       (tail_moments E quadrature model p_X p_Q X W i)"

text \<open>
  What a sensor with the moments \<open>(mu_y, c_yy, c_xy)\<close> and the measurement slice
  \<open>y_i\<close> adds to \<open>C\<close> and to \<open>D\<close>, with \<open>A_i = c_xy\<^sup>T c_xx\<^sup>-\<^sup>1\<close>,
  \<open>c_yy_given_x = c_yy - c_xy\<^sup>T c_xx\<^sup>-\<^sup>1 c_xy\<close> and \<open>innovation = y_i - mu_y\<close>.
\<close>

definition information_C :: "('s, 'v, 'm) eigen \<Rightarrow> 'm \<Rightarrow> 'v \<times> 'm \<times> 'm \<Rightarrow> 'm" where
  "information_C E c_xx_inv moments =
     (case moments of (mu_y, c_yy, c_xy) \<Rightarrow>
        let A_i = m_mul E (m_transpose E c_xy) c_xx_inv;
            c_yy_given_x =
              m_sub E c_yy (m_mul E (m_mul E (m_transpose E c_xy) c_xx_inv) c_xy)
        in m_mul E (m_transpose E A_i) (solve_m E c_yy_given_x A_i))"

definition information_D :: "('s, 'v, 'm) eigen \<Rightarrow> 'm \<Rightarrow> 'v \<times> 'm \<times> 'm \<Rightarrow> 'v \<Rightarrow> 'v" where
  "information_D E c_xx_inv moments y_i =
     (case moments of (mu_y, c_yy, c_xy) \<Rightarrow>
        let A_i = m_mul E (m_transpose E c_xy) c_xx_inv;
            c_yy_given_x =
              m_sub E c_yy (m_mul E (m_mul E (m_transpose E c_xy) c_xx_inv) c_xy);
            innovation = v_sub E y_i mu_y
        in m_vec E (m_transpose E A_i) (solve_v E c_yy_given_x innovation))"

text \<open>
  The sensors of a list that contribute, and the accumulators after adding, in the
  order of the list, what each of them contributes.
\<close>

definition contributing ::
  "('s, 'v, 'm) eigen \<Rightarrow> ('p, 'v, 'm) SigmaPointQuadrature \<Rightarrow> ('s, 'v) JointModel \<Rightarrow> 'v \<Rightarrow> nat \<Rightarrow>
   'p \<Rightarrow> 'p \<Rightarrow> 'm \<Rightarrow> 'm \<Rightarrow> nat list \<Rightarrow> nat list" where
  "contributing E quadrature model y dim_y p_X p_Q X W sensors =
     filter (sensor_contributes E quadrature model y dim_y p_X p_Q X W) sensors"

definition accumulated_C ::
  "('s, 'v, 'm) eigen \<Rightarrow> ('p, 'v, 'm) SigmaPointQuadrature \<Rightarrow> ('s, 'v) JointModel \<Rightarrow> 'p \<Rightarrow> 'p \<Rightarrow>
   'm \<Rightarrow> 'm \<Rightarrow> 'm \<Rightarrow> 'm \<Rightarrow> nat list \<Rightarrow> 'm" where
  "accumulated_C E quadrature model p_X p_Q X W c_xx_inv C sensors =
     foldl (\<lambda>C i. m_add E C
              (information_C E c_xx_inv (fused_moments E quadrature model p_X p_Q X W i)))
       C sensors"

definition accumulated_D ::
  "('s, 'v, 'm) eigen \<Rightarrow> ('p, 'v, 'm) SigmaPointQuadrature \<Rightarrow> ('s, 'v) JointModel \<Rightarrow> 'v \<Rightarrow> nat \<Rightarrow>
   'p \<Rightarrow> 'p \<Rightarrow> 'm \<Rightarrow> 'm \<Rightarrow> 'm \<Rightarrow> 'v \<Rightarrow> nat list \<Rightarrow> 'v" where
  "accumulated_D E quadrature model y dim_y p_X p_Q X W c_xx_inv D sensors =
     foldl (\<lambda>D i. v_add E D
              (information_D E c_xx_inv (fused_moments E quadrature model p_X p_Q X W i)
                 (v_middleRows E y (i * dim_y) dim_y)))
       D sensors"

text \<open>
  The selector of the model after the loop: every sensor with a finite measurement
  slice selects itself.
\<close>

definition selected_model ::
  "('s, 'v, 'm) eigen \<Rightarrow> ('s, 'v) JointModel \<Rightarrow> 'v \<Rightarrow> nat \<Rightarrow> nat list \<Rightarrow> ('s, 'v) JointModel" where
  "selected_model E model y dim_y sensors =
     foldl (\<lambda>model i. model\<lparr>sensor_id := int i\<rparr>) model
       (filter (\<lambda>i. is_valid E y (i * dim_y) (i * dim_y + dim_y)) sensors)"

text \<open>
  The update call of the specification: the accumulators start at \<open>C = c_xx\<^sup>-\<^sup>1\<close> and
  \<open>D = 0\<close>, every contributing sensor adds its information, and the posterior has the
  covariance \<open>C\<^sup>-\<^sup>1\<close> and the mean \<open>mu_x + C\<^sup>-\<^sup>1 D\<close>.
\<close>

definition spec_update ::
  "('s, 'v, 'm) eigen \<Rightarrow> ('p, 'v, 'm) SigmaPointQuadrature \<Rightarrow> ('s, 'v) JointModel \<Rightarrow>
   ('v, 'm) Belief \<Rightarrow> 'v \<Rightarrow> nat list \<Rightarrow> ('v, 'm) Belief \<times> ('s, 'v) JointModel" where
  "spec_update E quadrature model prior_belief y sensors =
     (let (p_X, p_Q) = transform_to_points quadrature prior_belief (noise_distr E);
          mu_x = points_mean quadrature p_X;
          X = centered_points quadrature p_X;
          W = m_asDiagonal E (covariance_weights_vector quadrature p_X);
          c_xx = m_mul E (m_mul E X W) (m_transpose E X);
          c_xx_inv = m_inverse E c_xx;
          dim_y = nat (int (v_size E y) div count_local_models model);
          active = contributing E quadrature model y dim_y p_X p_Q X W sensors;
          C = accumulated_C E quadrature model p_X p_Q X W c_xx_inv c_xx_inv active;
          D = accumulated_D E quadrature model y dim_y p_X p_Q X W c_xx_inv
                (v_zero E (v_size E mu_x)) active;
          posterior_covariance = m_inverse E C
      in (\<lparr>belief_dimension = belief_dimension prior_belief,
           belief_mean = v_add E mu_x (m_vec E posterior_covariance D),
           belief_covariance = posterior_covariance\<rparr>,
          selected_model E model y dim_y sensors))"

text \<open>
  The update call with the loop run over all sensors but sensor \<open>j\<close>: the source's
  call, with the body of the loop left out at \<open>i = j\<close>.
\<close>

definition update_omitting ::
  "('s, 'v, 'm) eigen \<Rightarrow> ('p, 'v, 'm) SigmaPointQuadrature \<Rightarrow> ('s, 'v) JointModel \<Rightarrow>
   ('v, 'm) Belief \<Rightarrow> 'v \<Rightarrow> ('v, 'm) Belief \<Rightarrow> nat \<Rightarrow>
   error + ('v, 'm) Belief \<times> ('s, 'v) JointModel" where
  "update_omitting E quadrature obsrv_function prior_belief y posterior_belief j =
     (case update_init E quadrature prior_belief of
        (p_X, p_Q, mu_x, X, W, c_xx_inv) \<Rightarrow>
          let C = c_xx_inv;
              D = v_zero E (v_size E mu_x);
              sensor_count = count_local_models obsrv_function
          in
            if sensor_count = 0 then Inl DivisionByZero
            else if \<not> sensor_count dvd int (v_size E y) then Inl AssertionFailed
            else
              let dim_y = nat (int (v_size E y) div sensor_count);
                  st = sensor_loop
                         (\<lambda>i st. if i = j then st
                                  else sensor_step E quadrature y dim_y p_X p_Q X W c_xx_inv i st)
                         0 (nat sensor_count)
                         \<lparr>acc_C = C, acc_D = D, acc_model = obsrv_function\<rparr>
              in Inr (update_finalize E prior_belief mu_x (acc_C st) (acc_D st)
                        posterior_belief,
                      acc_model st))"

section \<open>A scalar instance\<close>

text \<open>
  An instance of the operations to run the classes on: scalars, vectors and matrices
  are all of dimension one and are values of \<open>Real\<close>, the arithmetic is the exact one
  with \<open>None\<close> for a value that is not finite.  A point set is a location with a
  variance; a function moves the location.
\<close>

definition fp_inverse :: "Real \<Rightarrow> Real" where
  "fp_inverse a = (case a of None \<Rightarrow> None | Some x \<Rightarrow> fp_div 1 x)"

definition fp_solve :: "Real \<Rightarrow> Real \<Rightarrow> Real" where
  "fp_solve a b = fp_mul (fp_inverse a) b"

definition fp_log :: "Real \<Rightarrow> Real" where
  "fp_log a = (case a of None \<Rightarrow> None | Some x \<Rightarrow> if x \<le> 0 then None else Some (ln x))"

definition scalar_eigen :: "(Real, Real, Real) eigen" where
  "scalar_eigen =
     \<lparr>s_add = fp_add, s_sub = fp_sub, s_mul = fp_mul, s_neg = fp_sub (Some 0),
      s_lit = Some, s_of_nat = (\<lambda>n. Some (real n)), s_log = fp_log,
      s_sqrt = (\<lambda>a. case a of None \<Rightarrow> None | Some x \<Rightarrow> fp_sqrt x),
      s_fabs = map_option abs, s_infinity = None, s_isfinite = (\<lambda>a. a \<noteq> None),
      v_size = (\<lambda>v. 1), v_get = (\<lambda>v k. v), v_set = (\<lambda>v k a. a), v_zero = (\<lambda>n. Some 0),
      v_add = fp_add, v_sub = fp_sub, v_scale = fp_mul, v_middleRows = (\<lambda>v start n. v),
      v_rowmul = fp_mul, v_dot = fp_mul, v_outer = fp_mul,
      m_rows = (\<lambda>m. 1), m_identity = (\<lambda>n. Some 1), m_add = fp_add, m_sub = fp_sub,
      m_mul = fp_mul, m_scale = fp_mul, m_vec = fp_mul, m_transpose = (\<lambda>m. m),
      m_inverse = fp_inverse, m_determinant = (\<lambda>m. m), m_asDiagonal = (\<lambda>v. v),
      ldlt_matrixL = (\<lambda>m. Some 1), ldlt_vectorD = (\<lambda>m. m),
      ldlt_transpositionsP = (\<lambda>m. Some 1),
      qr_rank = (\<lambda>m. if m = Some 0 then 0 else 1),
      solve_m = fp_solve, solve_v = fp_solve\<rparr>"

definition scalar_quadrature :: "(Real \<times> Real, Real, Real) SigmaPointQuadrature" where
  "scalar_quadrature =
     \<lparr>transform_to_points = (\<lambda>prior noise.
        ((belief_mean prior, belief_covariance prior),
         (belief_mean noise, belief_covariance noise))),
      propagate_points = (\<lambda>h p_X p_Q. (h (fst p_X) (fst p_Q), snd p_X)),
      points_mean = fst,
      centered_points = (\<lambda>p. Some 1),
      covariance_weights_vector = snd\<rparr>"

definition scalar_model :: "(Real, Real) JointModel" where
  "scalar_model =
     \<lparr>count_local_models = 1, sensor_id = 0,
      body_observation = (\<lambda>i x w. fp_add x w),
      tail_observation = (\<lambda>i x w. fp_add x w),
      feature_obsrv = (\<lambda>i obsrv. obsrv),
      tail_weight = (\<lambda>i. Some 0)\<rparr>"

definition scalar_prior :: "(Real, Real) Belief" where
  "scalar_prior = \<lparr>belief_dimension = 1, belief_mean = Some 0, belief_covariance = Some 1\<rparr>"


section \<open>Moments of a point set\<close>








text \<open>
  The values of a point set under a valuation \<open>v\<close> of the scalars, which gives the
  real number that a scalar stands for, or \<open>None\<close> where it is not a number: every
  coefficient and every weight is replaced by its value.
\<close>

definition weight_values :: "('s \<Rightarrow> Real) \<Rightarrow> 's Weight \<Rightarrow> Real Weight" where
  "weight_values v w = \<lparr>w_mean = v (w_mean w), w_cov = v (w_cov w)\<rparr>"

definition point_set_values :: "('s \<Rightarrow> Real) \<Rightarrow> 's PointSet \<Rightarrow> Real PointSet" where
  "point_set_values v ps =
     \<lparr>NumberOfPoints = NumberOfPoints ps,
      slots = map (map_option (\<lambda>(p, w). (map v p, weight_values v w))) (slots ps),
      write_log = write_log ps\<rparr>"




section \<open>Properties of the transition density\<close>

declare log_probabilities_loop.simps [simp del]

lemma log_probabilities_loop_eq:
  "i \<le> length states \<Longrightarrow> length states \<le> length cond_states \<Longrightarrow>
   length states \<le> length cond_inputs \<Longrightarrow>
   log_probabilities_loop lp states cond_states cond_inputs dt i probs =
     Inr (probs @ map (\<lambda>k. lp (states ! k) (cond_states ! k) (cond_inputs ! k) dt)
                      [i..<length states])"
proof (induction lp states cond_states cond_inputs dt i probs
       rule: log_probabilities_loop.induct)
  case (1 lp states cond_states cond_inputs dt i probs)
  show ?case
  proof (cases "i < length states")
    case True
    with "1.prems" have in_range: "i < length cond_states \<and> i < length cond_inputs"
      by simp
    have "log_probabilities_loop lp states cond_states cond_inputs dt i probs =
          log_probabilities_loop lp states cond_states cond_inputs dt (Suc i)
            (probs @ [lp (states ! i) (cond_states ! i) (cond_inputs ! i) dt])"
      using True in_range by (subst log_probabilities_loop.simps) simp
    also have "\<dots> = Inr ((probs @ [lp (states ! i) (cond_states ! i) (cond_inputs ! i) dt]) @
                 map (\<lambda>k. lp (states ! k) (cond_states ! k) (cond_inputs ! k) dt)
                     [Suc i..<length states])"
      using "1.IH" [OF True in_range] True "1.prems" by simp
    also have "\<dots> = Inr (probs @ map (\<lambda>k. lp (states ! k) (cond_states ! k) (cond_inputs ! k) dt)
                     [i..<length states])"
      using True by (simp add: upt_conv_Cons)
    finally show ?thesis .
  next
    case False
    with "1.prems" have "i = length states" by simp
    then show ?thesis
      by (subst log_probabilities_loop.simps) simp
  qed
qed

lemma log_probabilities_same_size:
  "length states = length cond_inputs \<Longrightarrow> length states \<le> length cond_states \<Longrightarrow>
   log_probabilities lp states cond_states cond_inputs dt =
     Inr (map (\<lambda>k. lp (states ! k) (cond_states ! k) (cond_inputs ! k) dt) [0..<length states])"
  unfolding log_probabilities_def
  by (simp add: log_probabilities_loop_eq)

text \<open>
  C9.  \<open>probabilities\<close> is the elementwise exponential of
  \<open>log_probabilities(states, cond_inputs, cond_inputs, dt)\<close>: \<open>cond_inputs\<close> is passed
  twice, and so the result is the same for any two \<open>cond_states\<close> arguments.  Where the
  sizes agree, entry \<open>k\<close> is
  \<open>exp (log_probability (states[k], cond_inputs[k], cond_inputs[k], dt))\<close>.
\<close>

theorem probabilities_passes_cond_inputs_twice:
  "probabilities lp exp_fp states cond_states cond_inputs dt =
     (case log_probabilities lp states cond_inputs cond_inputs dt of
        Inl e \<Rightarrow> Inl e | Inr probs \<Rightarrow> Inr (map exp_fp probs))
   \<and> probabilities lp exp_fp states cond_states cond_inputs dt =
     probabilities lp exp_fp states cond_states' cond_inputs dt
   \<and> probabilities lp exp_fp states cond_states cond_inputs dt =
     (if length states \<noteq> length cond_inputs then Inl AssertionFailed
      else Inr (map (\<lambda>k. exp_fp (lp (states ! k) (cond_inputs ! k) (cond_inputs ! k) dt))
                    [0..<length states]))"
  by (simp add: probabilities_def log_probabilities_same_size o_def)
     (simp add: log_probabilities_def)

section \<open>Properties of ff::Gaussian\<close>

lemma Covariance_fields:
  "ff_dimension (Covariance E g S) = ff_dimension g"
  "ff_mean (Covariance E g S) = ff_mean g"
  "ff_full_rank (Covariance E g S) = (qr_rank E S = m_rows E S)"
  "qr_rank E S = m_rows E S \<Longrightarrow> ff_precision (Covariance E g S) = m_inverse E S"
  "qr_rank E S = m_rows E S \<Longrightarrow>
     ff_log_normalizer (Covariance E g S) = spec_log_normalizer E S"
  by (simp_all add: Covariance_def Let_def spec_log_normalizer_def)

lemma tracks_Covariance: "tracks E (Covariance E g S) S (ff_mean g) (ff_dimension g)"
  by (simp add: tracks_def Covariance_fields)

lemma tracks_Mean: "tracks E g S m n \<Longrightarrow> tracks E (Mean g m') S m' n"
  by (simp add: tracks_def Mean_def)

lemma tracks_SetUnit:
  "ff_dimension g = n \<Longrightarrow> tracks E (SetUnit E g) (m_identity E n) (v_zero E n) n"
  using tracks_Covariance [of E "Mean (g\<lparr>ff_full_rank := True\<rparr>) (v_zero E n)" "m_identity E n"]
  by (simp add: SetUnit_def Let_def Dimension_def Mean_def)

lemma tracks_run_calls:
  "tracks E g S m n \<Longrightarrow>
   tracks E (run_calls E g calls) (last_covariance E n S calls) (last_mean E n m calls) n"
proof (induction calls arbitrary: g S m)
  case Nil
  then show ?case by simp
next
  case (Cons c calls)
  show ?case
  proof (cases c)
    case (CallMean m')
    with Cons show ?thesis by (simp add: tracks_Mean)
  next
    case (CallCovariance S')
    have "tracks E (Covariance E g S') S' m n"
      using Cons.prems tracks_Covariance [of E g S'] by (simp add: tracks_def)
    with Cons.IH CallCovariance show ?thesis by simp
  next
    case CallSetUnit
    have "tracks E (SetUnit E g) (m_identity E n) (v_zero E n) n"
      using Cons.prems by (intro tracks_SetUnit) (simp add: tracks_def)
    with Cons.IH CallSetUnit show ?thesis by simp
  qed
qed

lemma tracks_LogProbability:
  "tracks E g S m n \<Longrightarrow> LogProbability E g x = spec_log_density E S m x"
  by (auto simp add: tracks_def LogProbability_def spec_log_density_def)

text \<open>
  C8.  Take a Gaussian as its constructor leaves it and any run of calls of \<open>Mean\<close>,
  \<open>Covariance\<close> and \<open>SetUnit\<close> on it.  The log-density evaluator then returns, at every
  \<open>x\<close>, the value for the covariance \<open>S\<close> and the mean that were set most recently:
  \<open>log_normalizer - 0.5 (x - mean)\<^sup>T S\<^sup>-\<^sup>1 (x - mean)\<close> with
  \<open>log_normalizer = -0.5 (log det S + n log 2\<pi>)\<close> where the rank check of the setter
  found \<open>S\<close> of full rank, and minus infinity otherwise.
\<close>

theorem log_density_after_calls:
  "LogProbability E (run_calls E (Gaussian E raw n) calls) x =
     spec_log_density E (last_covariance E n (m_identity E n) calls)
       (last_mean E n (v_zero E n) calls) x"
proof -
  have "tracks E (Gaussian E raw n) (m_identity E n) (v_zero E n) n"
    unfolding Gaussian_def by (rule tracks_SetUnit) simp
  then have "tracks E (run_calls E (Gaussian E raw n) calls)
      (last_covariance E n (m_identity E n) calls) (last_mean E n (v_zero E n) calls) n"
    by (rule tracks_run_calls)
  then show ?thesis
    by (rule tracks_LogProbability)
qed

section \<open>Properties of the unscented transform\<close>

declare for_loop.simps [simp del]

text \<open>
  C2.  The scalars of the sigma-point generator are those of the specification, for
  every dimension \<open>n\<close>, all parameters and every arithmetic: with
  \<open>lambda = alpha \<cdot> alpha \<cdot> (n + kappa) - n\<close> they are
  \<open>w_mean_0 = lambda / (n + lambda)\<close>,
  \<open>w_cov_0 = w_mean_0 + (1 - alpha \<cdot> alpha + beta)\<close>,
  \<open>w_mean_i = w_cov_i = 1 / (2 (n + lambda))\<close> and \<open>gamma = sqrt (n + lambda)\<close>,
  each operation being the one of the arithmetic, in this order.
\<close>

theorem sigma_point_scalars:
  "(let lam = a_sub A (a_mul A (a_mul A (alpha ut) (alpha ut)) (a_add A n (kappa ut))) n in
      lambda_scalar A ut n = lam
    \<and> weight_mean_0 A ut n = a_div A lam (a_add A n lam)
    \<and> weight_cov_0 A ut n =
        a_add A (a_div A lam (a_add A n lam))
          (a_add A (a_sub A (a_lit A 1) (a_mul A (alpha ut) (alpha ut))) (beta ut))
    \<and> weight_mean_i A ut n = a_div A (a_lit A 1) (a_mul A (a_lit A 2) (a_add A n lam))
    \<and> weight_cov_i A ut n = a_div A (a_lit A 1) (a_mul A (a_lit A 2) (a_add A n lam))
    \<and> gamma_factor A ut n = a_sqrt A (a_add A n lam))"
  by (simp add: Let_def lambda_scalar_def weight_mean_0_def weight_cov_0_def weight_mean_i_def
      weight_cov_i_def gamma_factor_def)

lemma int32_id:
  assumes "- 2147483648 \<le> x" and "x \<le> 2147483647"
  shows "int32 x = x"
proof -
  have "(x + 2147483648) mod 4294967296 = x + 2147483648"
    using assms by (intro mod_pos_pos_trivial) linarith+
  then show ?thesis
    by (simp only: int32_def add_diff_cancel_right')
qed

lemma int32_wrap:
  assumes "2147483648 \<le> x" and "x \<le> 6442450943"
  shows "int32 x = x - 4294967296"
proof -
  have "(x + 2147483648 - 4294967296) mod 4294967296 = x + 2147483648 - 4294967296"
    using assms by (intro mod_pos_pos_trivial) linarith+
  then have "(x + 2147483648) mod 4294967296 = x + 2147483648 - 4294967296"
    by (simp only: minus_mod_self2)
  then show ?thesis
    unfolding int32_def by linarith
qed

lemma asserted_dimension:
  assumes "0 \<le> n" and "n \<le> 2147483647" and "0 < number_of_points n"
  shows "n \<le> 1073741823" and "number_of_points n = 2 * n + 1"
proof -
  have dyn: "n \<noteq> Dynamic"
    using assms(1) by (simp add: Dynamic_def)
  show small: "n \<le> 1073741823"
  proof (rule ccontr)
    assume "\<not> n \<le> 1073741823"
    then have big: "1073741824 \<le> n" by linarith
    have "int32 (2 * n) = 2 * n - 4294967296"
      using big assms(2) by (intro int32_wrap) linarith+
    moreover have "int32 (2 * n - 4294967296 + 1) = 2 * n - 4294967296 + 1"
      using big assms(2) by (intro int32_id) linarith+
    ultimately have "number_of_points n = 2 * n - 4294967296 + 1"
      using dyn by (simp add: number_of_points_def)
    with assms(2,3) show False by linarith
  qed
  have "int32 (2 * n) = 2 * n"
    using assms(1) small by (intro int32_id) linarith+
  moreover have "int32 (2 * n + 1) = 2 * n + 1"
    using assms(1) small by (intro int32_id) linarith+
  ultimately show "number_of_points n = 2 * n + 1"
    using dyn by (simp add: number_of_points_def)
qed

lemma number_of_points_small:
  assumes "0 \<le> n" and "n \<le> 1073741823"
  shows "number_of_points n = 2 * n + 1"
proof -
  have "int32 (2 * n) = 2 * n"
    using assms by (intro int32_id) linarith+
  moreover have "int32 (2 * n + 1) = 2 * n + 1"
    using assms by (intro int32_id) linarith+
  moreover have "n \<noteq> Dynamic"
    using assms(1) by (simp add: Dynamic_def)
  ultimately show ?thesis
    by (simp add: number_of_points_def)
qed

lemma gaussian_dimension_ok:
  assumes "gaussian_ok g"
  shows "gaussian_dimension g = int (length (gaussian_mean g))"
proof -
  have "int (length (gaussian_mean g)) \<le> 2147483647"
    using assms by (simp add: gaussian_ok_def)
  then show ?thesis
    unfolding gaussian_dimension_def by (intro int32_id) linarith+
qed

lemma then_do_simps [simp]:
  "then_do (None, s) f = f s"
  "then_do (Some e, s) f = (Some e, s)"
  by (simp_all add: then_do_def)

lemma then_do_assoc: "then_do (then_do r f) g = then_do r (\<lambda>s. then_do (f s) g)"
  by (cases r) (auto simp: then_do_def split: option.splits)

lemma then_do_return [simp]: "then_do r (\<lambda>s. (None, s)) = r"
  by (cases r) (auto simp: then_do_def split: option.splits)

lemma for_loop_run_list: "for_loop i limit body s = run_list [i..limit - 1] body s"
proof (induction i limit body s rule: for_loop.induct)
  case (1 i limit body s)
  show ?case
  proof (cases "i < limit")
    case True
    then have "[i..limit - 1] = i # [i + 1..limit - 1]"
      by (simp add: upto_rec1)
    with True "1.IH" show ?thesis
      by (subst for_loop.simps) (auto simp: then_do_def split: prod.splits option.splits)
  next
    case False
    then show ?thesis
      by (subst for_loop.simps) simp
  qed
qed

lemma run_list_cong:
  "(\<And>i s. i \<in> set xs \<Longrightarrow> body i s = body' i s) \<Longrightarrow> run_list xs body s = run_list xs body' s"
proof (induction xs arbitrary: s)
  case Nil
  show ?case by simp
next
  case (Cons x xs)
  have "run_list xs body = run_list xs body'"
    using Cons by (intro ext) simp
  with Cons.prems show ?case by simp
qed

lemma then_do_cong: "(\<And>s. f s = g s) \<Longrightarrow> then_do r f = then_do r g"
  by (cases r) (auto simp: then_do_def split: option.splits)

lemma apply_writes_append:
  "apply_writes (xs @ ys) ps = then_do (apply_writes xs ps) (apply_writes ys)"
proof (induction xs arbitrary: ps)
  case Nil
  show ?case by simp
next
  case (Cons x xs)
  show ?case
    by (simp add: then_do_assoc) (rule then_do_cong, rule Cons.IH)
qed

lemma apply_writes_Nil_eta: "apply_writes [] = (\<lambda>s. (None, s))"
  by (rule ext) simp

lemma apply_writes_pair:
  "apply_writes [(i, p, w), (j, q, w')] s = then_do (point i p w s) (point j q w')"
  by (simp, rule then_do_cong, simp add: apply_writes_Nil_eta)

lemma apply_writes_sections:
  "apply_writes (x # A @ B @ C) ps =
     then_do (point (fst x) (fst (snd x)) (snd (snd x)) ps) (\<lambda>ps.
       then_do (apply_writes A ps) (\<lambda>ps.
         then_do (apply_writes B ps) (\<lambda>ps. apply_writes C ps)))"
proof -
  have "apply_writes (A @ B @ C) s =
        then_do (apply_writes A s) (\<lambda>s. then_do (apply_writes B s) (\<lambda>s. apply_writes C s))" for s
    by (simp only: apply_writes_append, rule then_do_cong, simp only: apply_writes_append)
  then show ?thesis
    by (simp only: apply_writes.simps, intro then_do_cong)
qed

lemma run_list_writes:
  "run_list xs (\<lambda>i ps. apply_writes (f i) ps) ps = apply_writes (concat (map f xs)) ps"
proof (induction xs arbitrary: ps)
  case Nil
  show ?case by simp
next
  case (Cons x xs)
  show ?case
    by (simp add: apply_writes_append) (rule then_do_cong, rule Cons.IH)
qed

lemma col_in_range:
  "0 \<le> j \<Longrightarrow> j < int (length m) \<Longrightarrow> col m j = Inr (m ! nat j)"
  by (simp add: col_def)

lemma forward_writes:
  assumes ok: "gaussian_ok g" and off: "0 \<le> off" and le: "off + gaussian_dimension g \<le> n"
    and bound: "n \<le> 1073741823"
    and fits: "\<not> (IsFixed (NumberOfPoints ps) \<and> NumberOfPoints ps \<noteq> 2 * n + 1)"
  shows "forward A ut g n off ps =
           then_do (resize (2 * n + 1) ps) (apply_writes (point_calls A ut g n off))"
proof -
  define m where "m = gaussian_mean g"
  define w where "w = \<lparr>w_mean = weight_mean_i A ut (a_of_int A n),
                       w_cov = weight_cov_i A ut (a_of_int A n)\<rparr>"
  define cs where "cs = mat_scale A (gaussian_square_root g) (gamma_factor A ut (a_of_int A n))"
  define d where "d = gaussian_dimension g"
  have dlen: "d = int (length (gaussian_mean g))"
    unfolding d_def by (rule gaussian_dimension_ok [OF ok])
  have d0: "0 \<le> d"
    by (simp add: dlen)
  have count: "0 \<le> n"
    using off le d0 by (simp add: d_def)
  have le': "off + d \<le> n"
    using le by (simp only: d_def)
  have np: "number_of_points n = 2 * n + 1"
    by (rule number_of_points_small [OF count bound])
  have l1: "int32 (1 + off) = 1 + off"
    using off le' d0 bound by (intro int32_id) linarith+
  have "int32 (1 + off + d) = 1 + off + d"
    using off le' d0 bound by (intro int32_id) linarith+
  then have l2: "int32 (1 + off + gaussian_dimension g) = 1 + off + d"
    by (simp only: d_def)
  have loop_mean:
    "for_loop a b (\<lambda>i ps. then_do (point i m w ps) (point (int32 (n + i)) m w)) s =
      apply_writes (concat (map (mean_pair m w n) [a..b - 1])) s"
    if ab: "0 \<le> a" "b \<le> n + 1" for a b s
  proof -
    have "then_do (point i m w s) (point (int32 (n + i)) m w) = apply_writes (mean_pair m w n i) s"
      if "i \<in> set [a..b - 1]" for i s
    proof -
      from that have "a \<le> i" "i \<le> b - 1" by simp_all
      with ab count bound have "int32 (n + i) = n + i"
        by (intro int32_id) linarith+
      then show ?thesis
        by (simp only: mean_pair_def apply_writes_pair)
    qed
    then show ?thesis
      unfolding for_loop_run_list
      by (subst run_list_writes [symmetric]) (rule run_list_cong)
  qed
  have body2: "(case col cs (int32 (int32 (i - off) - 1)) of
                  Inl e \<Rightarrow> (Some e, s)
                | Inr point_shift \<Rightarrow>
                    if length point_shift \<noteq> length m then (Some AssertionFailed, s)
                    else then_do (point i (vec_add A m point_shift) w s)
                           (point (int32 (n + i)) (vec_sub A m point_shift) w)) =
               apply_writes [(i, vec_add A m (point_shift_of A ut g n (i - off - 1)), w),
                             (n + i, vec_sub A m (point_shift_of A ut g n (i - off - 1)), w)] s"
    if "i \<in> set [1 + off..1 + off + d - 1]" for i s
  proof -
    from that have i: "1 + off \<le> i" "i \<le> off + d" by simp_all
    have w1: "int32 (i - off) = i - off"
      using i off le' bound by (intro int32_id) linarith+
    have w2: "int32 (i - off - 1) = i - off - 1"
      using i off le' bound by (intro int32_id) linarith+
    have w3: "int32 (n + i) = n + i"
      using i off le' bound by (intro int32_id) linarith+
    from i have j: "0 \<le> i - off - 1" "i - off - 1 < int (length (gaussian_square_root g))"
      using ok by (auto simp: dlen gaussian_ok_def)
    then have "nat (i - off - 1) < length (gaussian_square_root g)" by simp
    then have len: "length (gaussian_square_root g ! nat (i - off - 1)) = length (gaussian_mean g)"
      using ok by (simp add: gaussian_ok_def list_all_length)
    have c: "col cs (i - off - 1) = Inr (point_shift_of A ut g n (i - off - 1))"
      using j by (simp add: col_def cs_def mat_scale_def point_shift_of_def)
    show ?thesis
      using len by (simp only: apply_writes_pair w1 w2 w3) (simp add: c m_def point_shift_of_def)
  qed
  have loop2: "for_loop (1 + off) (1 + off + d)
        (\<lambda>i s. case col cs (int32 (int32 (i - off) - 1)) of
                  Inl e \<Rightarrow> (Some e, s)
                | Inr point_shift \<Rightarrow>
                    if length point_shift \<noteq> length m then (Some AssertionFailed, s)
                    else then_do (point i (vec_add A m point_shift) w s)
                           (point (int32 (n + i)) (vec_sub A m point_shift) w)) s =
      apply_writes (concat (map (\<lambda>i. [(i, vec_add A m (point_shift_of A ut g n (i - off - 1)), w),
                               (n + i, vec_sub A m (point_shift_of A ut g n (i - off - 1)), w)])
                    [1 + off..off + d])) s" for s
  proof -
    have range2: "[1 + off..1 + off + d - 1] = [1 + off..off + d]"
      by (simp add: algebra_simps)
    show ?thesis
      unfolding for_loop_run_list range2 [symmetric]
      by (subst run_list_writes [symmetric]) (rule run_list_cong, rule body2)
  qed
  let ?B1 = "\<lambda>i ps. then_do (point i m w ps) (point (int32 (n + i)) m w)"
  have loop1: "for_loop 1 (1 + off) ?B1 s =
      apply_writes (concat (map (mean_pair m w n) [1..off])) s" for s
    using loop_mean [of 1 "1 + off" s] off le' d0 by simp
  have loop3: "for_loop (1 + off + d) (n + 1) ?B1 s =
      apply_writes (concat (map (mean_pair m w n) [1 + off + d..n])) s" for s
    using loop_mean [of "1 + off + d" "n + 1" s] off d0 by simp
  have pos: "2 * n + 1 > 0"
    using count by simp
  have nf: "(IsFixed (NumberOfPoints ps) \<and> NumberOfPoints ps \<noteq> 2 * n + 1) = False"
    using fits by simp
  let ?B2 = "\<lambda>i s. case col cs (int32 (int32 (i - off) - 1)) of
                  Inl e \<Rightarrow> (Some e, s)
                | Inr point_shift \<Rightarrow>
                    if length point_shift \<noteq> length m then (Some AssertionFailed, s)
                    else then_do (point i (vec_add A m point_shift) w s)
                           (point (int32 (n + i)) (vec_sub A m point_shift) w)"
  let ?w0 = "\<lparr>w_mean = weight_mean_0 A ut (a_of_int A n), w_cov = weight_cov_0 A ut (a_of_int A n)\<rparr>"
  have "forward A ut g n off ps =
      then_do (resize (2 * n + 1) ps) (\<lambda>ps.
        then_do (point 0 m ?w0 ps) (\<lambda>ps.
          then_do (for_loop 1 (1 + off) ?B1 ps) (\<lambda>ps.
            then_do (for_loop (1 + off) (1 + off + d) ?B2 ps) (\<lambda>ps.
              for_loop (1 + off + d) (n + 1) ?B1 ps))))"
    unfolding forward_def Let_def np l1 l2 m_def w_def cs_def
    by (simp only: pos nf not_True_eq_False if_False)
  also have "\<dots> = then_do (resize (2 * n + 1) ps) (\<lambda>ps.
        then_do (point 0 m ?w0 ps) (\<lambda>ps.
          then_do (apply_writes (concat (map (mean_pair m w n) [1..off])) ps) (\<lambda>ps.
            then_do (apply_writes (concat (map (\<lambda>i. [(i, vec_add A m (point_shift_of A ut g n (i - off - 1)), w),
                               (n + i, vec_sub A m (point_shift_of A ut g n (i - off - 1)), w)])
                    [1 + off..off + d])) ps) (\<lambda>ps.
              apply_writes (concat (map (mean_pair m w n) [1 + off + d..n])) ps))))"
    by (simp only: loop1 loop2 loop3)
  also have "\<dots> = then_do (resize (2 * n + 1) ps) (apply_writes (point_calls A ut g n off))"
    by (rule then_do_cong)
       (simp only: point_calls_def Let_def apply_writes_sections m_def w_def d_def fst_conv snd_conv)
  finally show ?thesis .
qed

lemma apply_writes_in_range:
  "list_all (\<lambda>x. 0 \<le> fst x \<and> fst x < int (length (slots ps))) W \<Longrightarrow>
   apply_writes W ps =
     (None, ps\<lparr>slots := foldl write_slot (slots ps) W, write_log := write_log ps @ map fst W\<rparr>)"
proof (induction W arbitrary: ps)
  case Nil
  show ?case by simp
next
  case (Cons x W)
  let ?ps' = "ps\<lparr>slots := (slots ps)[nat (fst x) := Some (snd x)],
                 write_log := write_log ps @ [fst x]\<rparr>"
  from Cons.prems have x: "0 \<le> fst x" "fst x < int (length (slots ps))"
    and rest: "list_all (\<lambda>x. 0 \<le> fst x \<and> fst x < int (length (slots ?ps'))) W"
    by simp_all
  have "point (fst x) (fst (snd x)) (snd (snd x)) ps = (None, ?ps')"
    using x by (simp add: point_def)
  then show ?case
    using Cons.IH [OF rest] by (simp add: write_slot_def)
qed

lemma length_foldl_write_slot [simp]: "length (foldl write_slot sl W) = length sl"
  by (induction W arbitrary: sl) (simp_all add: write_slot_def)

lemma nth_foldl_write_slot_other:
  "int k \<notin> fst ` set W \<Longrightarrow> list_all (\<lambda>x. 0 \<le> fst x) W \<Longrightarrow>
   foldl write_slot sl W ! k = sl ! k"
proof (induction W arbitrary: sl)
  case Nil
  show ?case by simp
next
  case (Cons x W)
  then have "nat (fst x) \<noteq> k" by auto
  with Cons show ?case by (simp add: write_slot_def)
qed

lemma nth_foldl_write_slot:
  "distinct (map fst W) \<Longrightarrow> list_all (\<lambda>x. 0 \<le> fst x) W \<Longrightarrow> (int k, v) \<in> set W \<Longrightarrow>
   k < length sl \<Longrightarrow> foldl write_slot sl W ! k = Some v"
proof (induction W arbitrary: sl)
  case Nil
  then show ?case by simp
next
  case (Cons x W)
  show ?case
  proof (cases "x = (int k, v)")
    case True
    with Cons.prems have "int k \<notin> fst ` set W" "list_all (\<lambda>x. 0 \<le> fst x) W"
      by auto
    then have "foldl write_slot (write_slot sl x) W ! k = write_slot sl x ! k"
      by (rule nth_foldl_write_slot_other)
    moreover have "write_slot sl x ! k = Some v"
      using True Cons.prems by (simp add: write_slot_def)
    ultimately show ?thesis by simp
  next
    case False
    with Cons.prems have "(int k, v) \<in> set W" "distinct (map fst W)"
      "list_all (\<lambda>x. 0 \<le> fst x) W" "k < length (write_slot sl x)"
      by (auto simp: write_slot_def)
    with Cons.IH show ?thesis by simp
  qed
qed

lemma map_add_upto: "map (\<lambda>i. k + i) [a..b] = [k + a..k + b]"
proof (induction "nat (b - a + 1)" arbitrary: a)
  case 0
  then show ?case by simp
next
  case (Suc m)
  then have ab: "a \<le> b" and m: "m = nat (b - (a + 1) + 1)" by linarith+
  have "[a..b] = a # [a + 1..b]" "[k + a..k + b] = (k + a) # [k + a + 1..k + b]"
    using ab by (simp_all add: upto_rec1)
  with Suc.hyps(1) [OF m] show ?case by (simp add: add.assoc)
qed

lemma mset_pair_indices:
  "mset (concat (map (\<lambda>i. [i, n + i]) xs)) = mset xs + mset (map (\<lambda>i. n + i) xs)"
  by (induction xs) simp_all

lemma fst_point_calls:
  "map fst (point_calls A ut g n off) =
     0 # concat (map (\<lambda>i. [i, n + i])
                  ([1..off] @ [1 + off..off + gaussian_dimension g]
                   @ [1 + off + gaussian_dimension g..n]))"
  by (simp add: point_calls_def Let_def map_concat o_def mean_pair_def)

lemma upto_cut: "a \<le> j + 1 \<Longrightarrow> j \<le> b \<Longrightarrow> [a..b] = [a..j] @ [j + 1..b]"
  using upto_split1 [of a "j + 1" b] by (cases "j = b") simp_all

lemma sections_upto:
  assumes "0 \<le> off" "0 \<le> d" "off + d \<le> n"
  shows "[1..off] @ [1 + off..off + d] @ [1 + off + d..n] = [1..n]"
proof -
  have "[1..n] = [1..off] @ [off + 1..n]"
    using assms by (intro upto_cut) auto
  also have "[off + 1..n] = [off + 1..off + d] @ [off + d + 1..n]"
    using assms by (intro upto_cut) auto
  finally show ?thesis by (simp add: algebra_simps)
qed

lemma mset_fst_point_calls:
  assumes "gaussian_ok g" "0 \<le> off" "off + gaussian_dimension g \<le> n"
  shows "mset (map fst (point_calls A ut g n off)) = mset [0..2 * n]"
proof -
  have d: "0 \<le> gaussian_dimension g"
    by (simp add: gaussian_dimension_ok [OF assms(1)])
  have n: "0 \<le> n" using assms d by linarith
  have "mset (map fst (point_calls A ut g n off)) = mset (0 # [1..n] @ [n + 1..n + n])"
    by (simp add: fst_point_calls sections_upto [OF assms(2) d assms(3)] mset_pair_indices
        map_add_upto)
  also have "[1..n] @ [n + 1..n + n] = [1..2 * n]"
    using n upto_cut [of 1 n "2 * n"] by simp
  also have "0 # [1..2 * n] = [0..2 * n]"
    using n by (simp add: upto_rec1 [of 0])
  finally show ?thesis .
qed

lemma length_resized_slots: "0 \<le> n \<Longrightarrow> int (length (resized_slots n ps)) = 2 * n + 1"
  by (simp add: resized_slots_def)

lemma resize_fits:
  assumes "point_set_ok ps"
    and "\<not> (IsFixed (NumberOfPoints ps) \<and> NumberOfPoints ps \<noteq> 2 * n + 1)"
  shows "resize (2 * n + 1) ps = (None, ps\<lparr>slots := resized_slots n ps\<rparr>)"
  using assms by (auto simp: resize_def resized_slots_def point_set_ok_def)

lemma point_calls_in_range:
  assumes "gaussian_ok g" "0 \<le> off" "off + gaussian_dimension g \<le> n"
  shows "list_all (\<lambda>x. 0 \<le> fst x \<and> fst x < 2 * n + 1) (point_calls A ut g n off)"
proof -
  have "set (map fst (point_calls A ut g n off)) = set [0..2 * n]"
    using mset_fst_point_calls [OF assms] by (rule mset_eq_setD)
  then have "\<forall>x \<in> set (point_calls A ut g n off). fst x \<in> {0..2 * n}"
    by (metis image_eqI list.set_map set_upto)
  then show ?thesis
    by (simp add: list_all_iff)
qed

lemma forward_result:
  assumes ok: "gaussian_ok g" and off: "0 \<le> off" and le: "off + gaussian_dimension g \<le> n"
    and bound: "n \<le> 1073741823"
    and fits: "\<not> (IsFixed (NumberOfPoints ps) \<and> NumberOfPoints ps \<noteq> 2 * n + 1)"
    and ps: "point_set_ok ps"
  shows "forward A ut g n off ps =
           (None, ps\<lparr>slots := final_slots A ut g n off ps,
                      write_log := write_log ps @ map fst (point_calls A ut g n off)\<rparr>)"
proof -
  have n: "0 \<le> n"
    using off le by (simp add: gaussian_dimension_ok [OF ok])
  let ?ps1 = "ps\<lparr>slots := resized_slots n ps\<rparr>"
  have "list_all (\<lambda>x. 0 \<le> fst x \<and> fst x < int (length (slots ?ps1))) (point_calls A ut g n off)"
    using point_calls_in_range [OF ok off le] by (simp add: length_resized_slots [OF n])
  then have "apply_writes (point_calls A ut g n off) ?ps1 =
      (None, ?ps1\<lparr>slots := foldl write_slot (slots ?ps1) (point_calls A ut g n off),
                   write_log := write_log ?ps1 @ map fst (point_calls A ut g n off)\<rparr>)"
    by (rule apply_writes_in_range)
  then show ?thesis
    by (simp add: forward_writes [OF ok off le bound fits] resize_fits [OF ps fits] final_slots_def)
qed

lemma point_calls_members:
  assumes "1 \<le> i" "i \<le> n" "0 \<le> off" "off + gaussian_dimension g \<le> n"
  shows "(i, plus_point A ut g n off i, weight_i A ut n) \<in> set (point_calls A ut g n off)"
    and "(n + i, minus_point A ut g n off i, weight_i A ut n) \<in> set (point_calls A ut g n off)"
  using assms
  by (auto simp: point_calls_def Let_def plus_point_def minus_point_def weight_i_def mean_pair_def)

lemma final_slots_nth:
  assumes ok: "gaussian_ok g" and off: "0 \<le> off" and le: "off + gaussian_dimension g \<le> n"
  shows "int (length (final_slots A ut g n off ps)) = 2 * n + 1"
    and "final_slots A ut g n off ps ! 0 = Some (gaussian_mean g, weight_0 A ut n)"
    and "1 \<le> i \<Longrightarrow> i \<le> n \<Longrightarrow>
         final_slots A ut g n off ps ! nat i = Some (plus_point A ut g n off i, weight_i A ut n)"
    and "1 \<le> i \<Longrightarrow> i \<le> n \<Longrightarrow>
         final_slots A ut g n off ps ! nat (n + i) =
           Some (minus_point A ut g n off i, weight_i A ut n)"
proof -
  have n: "0 \<le> n"
    using off le by (simp add: gaussian_dimension_ok [OF ok])
  have len: "int (length (resized_slots n ps)) = 2 * n + 1"
    by (rule length_resized_slots [OF n])
  have dist: "distinct (map fst (point_calls A ut g n off))"
    using mset_fst_point_calls [OF ok off le, of A ut] distinct_upto [of 0 "2 * n"]
    by (metis mset_eq_imp_distinct_iff)
  have nonneg: "list_all (\<lambda>x. 0 \<le> fst x) (point_calls A ut g n off)"
    using point_calls_in_range [OF ok off le, of A ut] by (simp add: list_all_iff)
  have inside: "0 \<le> j \<Longrightarrow> j \<le> 2 * n \<Longrightarrow> nat j < length (resized_slots n ps)" for j
    using len by linarith
  note nth = nth_foldl_write_slot [OF dist nonneg, of _ _ "resized_slots n ps"]
  show "int (length (final_slots A ut g n off ps)) = 2 * n + 1"
    by (simp add: final_slots_def len)
  have "(int 0, gaussian_mean g, weight_0 A ut n) \<in> set (point_calls A ut g n off)"
    by (simp add: point_calls_def Let_def weight_0_def)
  then show "final_slots A ut g n off ps ! 0 = Some (gaussian_mean g, weight_0 A ut n)"
    unfolding final_slots_def using inside [of 0] n by (intro nth) auto
  {
    assume i: "1 \<le> i" "i \<le> n"
    have "(int (nat i), plus_point A ut g n off i, weight_i A ut n) \<in> set (point_calls A ut g n off)"
      using point_calls_members(1) [OF i off le] i by simp
    then show "final_slots A ut g n off ps ! nat i =
                 Some (plus_point A ut g n off i, weight_i A ut n)"
      unfolding final_slots_def using inside [of i] i by (intro nth) auto
    have "(int (nat (n + i)), minus_point A ut g n off i, weight_i A ut n)
            \<in> set (point_calls A ut g n off)"
      using point_calls_members(2) [OF i off le] i by simp
    then show "final_slots A ut g n off ps ! nat (n + i) =
                 Some (minus_point A ut g n off i, weight_i A ut n)"
      unfolding final_slots_def using inside [of "n + i"] i by (intro nth) auto
  }
qed



lemma scaled_column:
  "0 \<le> j \<Longrightarrow> j < int (length (gaussian_square_root g)) \<Longrightarrow>
   mat_scale A (gaussian_square_root g) (gamma_factor A ut (a_of_int A n)) ! nat j =
     point_shift_of A ut g n j"
  by (simp add: mat_scale_def point_shift_of_def)


text \<open>
  C5, amended.  Take a well-formed belief of dimension \<open>d\<close> embedded at \<open>off\<close> into
  a global dimension \<open>n\<close> with \<open>0 \<le> off\<close> and \<open>off + d \<le> n\<close>, where \<open>n\<close> is an
  \<open>int\<close> that passes the assertion \<open>point_count > 0\<close> at the start of \<open>forward\<close>,
  and a point set that takes \<open>2 n + 1\<close> points.  Then, in every arithmetic,
  \<open>forward\<close> completes, the point set has exactly \<open>2 n + 1\<close> points, and they are
  laid out as follows.  Point 0 is the mean with the weights \<open>(w_mean_0, w_cov_0)\<close>.
  Points 1 to \<open>n\<close> stand for the dimensions 0 to \<open>n - 1\<close>, so that dimension \<open>j\<close>
  has the point index \<open>i = 1 + j\<close> (the loop variable of the source): for \<open>j\<close> in the
  belief's own range \<open>[off, off + d)\<close> the points \<open>i\<close> and \<open>n + i\<close> are the
  symmetric pair of the mean plus and minus column \<open>j - off\<close> of
  \<open>square_root \<cdot> gamma\<close>, and for every other \<open>i\<close> from 1 to \<open>n\<close> the points
  \<open>i\<close> and \<open>n + i\<close> are the mean unchanged; all of them carry the weights
  \<open>(w_mean_i, w_cov_i)\<close>.  The indices written are, as a multiset, \<open>0, \<dots>, 2 n\<close>:
  each of the \<open>2 n + 1\<close> indices is written exactly once.  The claim asks for
  \<open>off + d \<le> n\<close> only; the counterexample below is why \<open>0 \<le> off\<close> is needed.
\<close>

theorem forward_point_layout:
  assumes ok: "gaussian_ok g" and off: "0 \<le> off" and le: "off + gaussian_dimension g \<le> n"
    and int: "n \<le> 2147483647" and asserted: "0 < number_of_points n"
    and fits: "\<not> (IsFixed (NumberOfPoints ps) \<and> NumberOfPoints ps \<noteq> 2 * n + 1)"
    and ps: "point_set_ok ps"
  shows "\<exists>ps' written.
           forward A ut g n off ps = (None, ps')
         \<and> int (length (slots ps')) = 2 * n + 1
         \<and> slots ps' ! 0 =
             Some (gaussian_mean g,
                   \<lparr>w_mean = weight_mean_0 A ut (a_of_int A n),
                    w_cov = weight_cov_0 A ut (a_of_int A n)\<rparr>)
         \<and> (\<forall>j. off \<le> j \<and> j < off + gaussian_dimension g \<longrightarrow>
               slots ps' ! nat (1 + j) =
                 Some (vec_add A (gaussian_mean g)
                         (mat_scale A (gaussian_square_root g)
                            (gamma_factor A ut (a_of_int A n)) ! nat (j - off)),
                       \<lparr>w_mean = weight_mean_i A ut (a_of_int A n),
                        w_cov = weight_cov_i A ut (a_of_int A n)\<rparr>)
             \<and> slots ps' ! nat (n + (1 + j)) =
                 Some (vec_sub A (gaussian_mean g)
                         (mat_scale A (gaussian_square_root g)
                            (gamma_factor A ut (a_of_int A n)) ! nat (j - off)),
                       \<lparr>w_mean = weight_mean_i A ut (a_of_int A n),
                        w_cov = weight_cov_i A ut (a_of_int A n)\<rparr>))
         \<and> (\<forall>i. 1 \<le> i \<and> i \<le> n \<and> \<not> (off < i \<and> i \<le> off + gaussian_dimension g) \<longrightarrow>
               slots ps' ! nat i =
                 Some (gaussian_mean g,
                       \<lparr>w_mean = weight_mean_i A ut (a_of_int A n),
                        w_cov = weight_cov_i A ut (a_of_int A n)\<rparr>)
             \<and> slots ps' ! nat (n + i) =
                 Some (gaussian_mean g,
                       \<lparr>w_mean = weight_mean_i A ut (a_of_int A n),
                        w_cov = weight_cov_i A ut (a_of_int A n)\<rparr>))
         \<and> write_log ps' = write_log ps @ written
         \<and> mset written = mset [0..2 * n]"
proof -
  let ?ps' = "ps\<lparr>slots := final_slots A ut g n off ps,
                 write_log := write_log ps @ map fst (point_calls A ut g n off)\<rparr>"
  have n: "0 \<le> n"
    using off le by (simp add: gaussian_dimension_ok [OF ok])
  have bound: "n \<le> 1073741823"
    by (rule asserted_dimension(1) [OF n int asserted])
  note nth = final_slots_nth [OF ok off le, where A = A and ut = ut and ps = ps]
  have run: "forward A ut g n off ps = (None, ?ps')"
    by (rule forward_result [OF ok off le bound fits ps])
  have len: "int (length (slots ?ps')) = 2 * n + 1"
    using nth(1) by simp
  have first: "slots ?ps' ! 0 =
      Some (gaussian_mean g,
            \<lparr>w_mean = weight_mean_0 A ut (a_of_int A n), w_cov = weight_cov_0 A ut (a_of_int A n)\<rparr>)"
    using nth(2) by (simp add: weight_0_def)
  have own: "slots ?ps' ! nat (1 + j) =
        Some (vec_add A (gaussian_mean g)
                (mat_scale A (gaussian_square_root g) (gamma_factor A ut (a_of_int A n))
                   ! nat (j - off)),
              \<lparr>w_mean = weight_mean_i A ut (a_of_int A n),
               w_cov = weight_cov_i A ut (a_of_int A n)\<rparr>)
      \<and> slots ?ps' ! nat (n + (1 + j)) =
        Some (vec_sub A (gaussian_mean g)
                (mat_scale A (gaussian_square_root g) (gamma_factor A ut (a_of_int A n))
                   ! nat (j - off)),
              \<lparr>w_mean = weight_mean_i A ut (a_of_int A n),
               w_cov = weight_cov_i A ut (a_of_int A n)\<rparr>)"
    if j: "off \<le> j \<and> j < off + gaussian_dimension g" for j
  proof -
    have i: "1 \<le> 1 + j" "1 + j \<le> n" "off < 1 + j \<and> 1 + j \<le> off + gaussian_dimension g"
      using j off le by auto
    have c: "mat_scale A (gaussian_square_root g) (gamma_factor A ut (a_of_int A n)) ! nat (j - off)
          = point_shift_of A ut g n (1 + j - off - 1)"
      using j ok scaled_column [of "j - off" g A ut n]
      by (simp add: gaussian_ok_def gaussian_dimension_ok [OF ok])
    show ?thesis
      using nth(3) [OF i(1,2)] nth(4) [OF i(1,2)] i(3)
      by (simp add: c plus_point_def minus_point_def weight_i_def)
  qed
  have other: "slots ?ps' ! nat i =
        Some (gaussian_mean g,
              \<lparr>w_mean = weight_mean_i A ut (a_of_int A n),
               w_cov = weight_cov_i A ut (a_of_int A n)\<rparr>)
      \<and> slots ?ps' ! nat (n + i) =
        Some (gaussian_mean g,
              \<lparr>w_mean = weight_mean_i A ut (a_of_int A n),
               w_cov = weight_cov_i A ut (a_of_int A n)\<rparr>)"
    if i: "1 \<le> i \<and> i \<le> n \<and> \<not> (off < i \<and> i \<le> off + gaussian_dimension g)" for i
  proof -
    from i have "1 \<le> i" "i \<le> n" by simp_all
    from nth(3) [OF this] nth(4) [OF this] i show ?thesis
      by (simp add: plus_point_def minus_point_def weight_i_def)
  qed
  have log: "mset (map fst (point_calls A ut g n off)) = mset [0..2 * n]"
    by (rule mset_fst_point_calls [OF ok off le])
  show ?thesis
    using run len first own other log
    by (intro exI [of _ ?ps'] exI [of _ "map fst (point_calls A ut g n off)"]) simp
qed

subsection \<open>The size check of forward\<close>

lemma not_wrong_size_then_do:
  "fst r \<noteq> Some WrongSizeException \<Longrightarrow> (\<And>s. fst (f s) \<noteq> Some WrongSizeException) \<Longrightarrow>
   fst (then_do r f) \<noteq> Some WrongSizeException"
  by (cases r) (auto simp: then_do_def split: option.splits)

lemma not_wrong_size_point: "fst (point i p w ps) \<noteq> Some WrongSizeException"
  by (simp add: point_def)

lemma not_wrong_size_resize: "fst (resize k ps) \<noteq> Some WrongSizeException"
  by (simp add: resize_def)

lemma not_wrong_size_run_list:
  "(\<And>i s. fst (body i s) \<noteq> Some WrongSizeException) \<Longrightarrow>
   fst (run_list xs body s) \<noteq> Some WrongSizeException"
  by (induction xs arbitrary: s) (simp_all add: not_wrong_size_then_do)

lemma not_wrong_size_for_loop:
  "(\<And>i s. fst (body i s) \<noteq> Some WrongSizeException) \<Longrightarrow>
   fst (for_loop a b body s) \<noteq> Some WrongSizeException"
  by (simp add: for_loop_run_list not_wrong_size_run_list)

lemma not_wrong_size_shift:
  "fst (case col cs j of
          Inl e \<Rightarrow> (Some e, s)
        | Inr point_shift \<Rightarrow>
            if length point_shift \<noteq> k then (Some AssertionFailed, s)
            else then_do (point i (f point_shift) w s) (point i' (h point_shift) w))
     \<noteq> Some WrongSizeException"
proof (cases "col cs j")
  case (Inl e)
  then have "e = IndexOutOfRange"
    by (simp add: col_def split: if_splits)
  with Inl show ?thesis by simp
next
  case (Inr point_shift)
  then show ?thesis
    by (simp add: not_wrong_size_then_do not_wrong_size_point)
qed

lemma not_wrong_size_forward:
  assumes "\<not> (IsFixed (NumberOfPoints ps) \<and> NumberOfPoints ps \<noteq> number_of_points n)"
  shows "fst (forward A ut g n off ps) \<noteq> Some WrongSizeException"
proof (cases "number_of_points n > 0")
  case False
  then show ?thesis
    by (simp add: forward_def Let_def)
next
  case True
  have nf: "(IsFixed (NumberOfPoints ps) \<and> NumberOfPoints ps \<noteq> number_of_points n) = False"
    using assms by simp
  show ?thesis
    unfolding forward_def Let_def
    by (simp only: True nf not_True_eq_False if_False)
       (intro not_wrong_size_then_do not_wrong_size_for_loop not_wrong_size_point
          not_wrong_size_resize not_wrong_size_shift)
qed

text \<open>
  C7.  Take a call of \<open>forward\<close> that passes the assertion \<open>point_count > 0\<close> at its
  start, with a global dimension that is not negative (an \<open>int\<close>, so at most
  \<open>2147483647\<close>; the two together say that it is below \<open>2\<^sup>3\<^sup>0\<close>), and a point set
  of fixed capacity.  If the capacity is not \<open>2 \<cdot> global_dimension + 1\<close>, the call
  ends in \<open>WrongSizeException\<close> and the point set is the one that was passed: nothing
  was written.  If it is, the call does not end in \<open>WrongSizeException\<close>.  This
  holds in every arithmetic.
\<close>

theorem forward_size_mismatch:
  assumes "0 \<le> global_dimension" and "global_dimension \<le> 2147483647"
    and "0 < number_of_points global_dimension"
    and "IsFixed (NumberOfPoints point_set)"
  shows "(NumberOfPoints point_set \<noteq> 2 * global_dimension + 1 \<longrightarrow>
            forward A ut gaussian global_dimension dimension_offset point_set =
              (Some WrongSizeException, point_set))
       \<and> (NumberOfPoints point_set = 2 * global_dimension + 1 \<longrightarrow>
            fst (forward A ut gaussian global_dimension dimension_offset point_set) \<noteq>
              Some WrongSizeException)"
proof -
  have np: "number_of_points global_dimension = 2 * global_dimension + 1"
    by (rule asserted_dimension(2) [OF assms(1,2,3)])
  have pos: "0 < 2 * global_dimension + 1"
    using assms(1) by simp
  show ?thesis
    using assms(4) pos
      not_wrong_size_forward [of point_set global_dimension A ut gaussian dimension_offset]
    by (auto simp: np forward_def Let_def)
qed

lemma number_of_points_1: "number_of_points 1 = 3"
  using number_of_points_small [of 1] by simp

lemma number_of_points_2: "number_of_points 2 = 5"
  using number_of_points_small [of 2] by simp

theorem forward_size_mismatch_witness:
  "(0::int) \<le> 1 \<and> (1::int) \<le> 2147483647 \<and> 0 < number_of_points 1
   \<and> IsFixed (NumberOfPoints (fixed_point_set 5))
   \<and> NumberOfPoints (fixed_point_set 5) \<noteq> 2 * 1 + 1
   \<and> forward exact_arith default_transform belief_1d 1 0 (fixed_point_set 5) =
       (Some WrongSizeException, fixed_point_set 5)
   \<and> IsFixed (NumberOfPoints (fixed_point_set 3))
   \<and> NumberOfPoints (fixed_point_set 3) = 2 * 1 + 1
   \<and> fst (forward exact_arith default_transform belief_1d 1 0 (fixed_point_set 3)) \<noteq>
       Some WrongSizeException"
proof -
  have five: "IsFixed (NumberOfPoints (fixed_point_set 5))"
    and three: "IsFixed (NumberOfPoints (fixed_point_set 3))"
    by (simp_all add: fixed_point_set_def IsFixed_def Dynamic_def)
  have one: "(0::int) \<le> 1" and int: "(1::int) \<le> 2147483647" by simp_all
  have asserted: "0 < number_of_points 1"
    by (simp add: number_of_points_1)
  show ?thesis
    using forward_size_mismatch [OF one int asserted five, of exact_arith default_transform belief_1d 0]
      forward_size_mismatch [OF one int asserted three, of exact_arith default_transform belief_1d 0]
      five three asserted
    by (simp add: fixed_point_set_def)
qed

lemma default_scalars_2:
  "weight_mean_0 exact_arith default_transform (Some 2) = Some 0"
  "weight_cov_0 exact_arith default_transform (Some 2) = Some 2"
  "weight_mean_i exact_arith default_transform (Some 2) = Some (1 / 4)"
  "weight_cov_i exact_arith default_transform (Some 2) = Some (1 / 4)"
  "gamma_factor exact_arith default_transform (Some 2) = Some (sqrt 2)"
  by (simp_all add: default_transform_def finite_transform_def exact_arith_def weight_mean_0_def
      weight_cov_0_def weight_mean_i_def weight_cov_i_def gamma_factor_def lambda_scalar_def
      fp_quot_def fp_root_def fp_div_def fp_add_def fp_sub_def fp_mul_def fp_sqrt_def)

lemma belief_1d_ok: "gaussian_ok belief_1d" "gaussian_dimension belief_1d = 1"
proof -
  show ok: "gaussian_ok belief_1d"
    by (simp add: gaussian_ok_def belief_1d_def finite_belief_def)
  show "gaussian_dimension belief_1d = 1"
    using gaussian_dimension_ok [OF ok] by (simp add: belief_1d_def finite_belief_def)
qed

lemma belief_1d_fields:
  "gaussian_mean belief_1d = [Some 5]" "gaussian_square_root belief_1d = [[Some 3]]"
  by (simp_all add: belief_1d_def finite_belief_def)

lemma dynamic_point_set_ok:
  "\<not> (IsFixed (NumberOfPoints dynamic_point_set) \<and> NumberOfPoints dynamic_point_set \<noteq> k)"
  "point_set_ok dynamic_point_set"
  by (simp_all add: point_set_ok_def IsFixed_def dynamic_point_set_def)

theorem forward_point_layout_witness:
  "gaussian_ok belief_1d \<and> (0::int) \<le> 1 \<and> 1 + gaussian_dimension belief_1d \<le> 2
   \<and> (2::int) \<le> 2147483647 \<and> 0 < number_of_points 2
   \<and> \<not> (IsFixed (NumberOfPoints dynamic_point_set)
         \<and> NumberOfPoints dynamic_point_set \<noteq> 2 * 2 + 1)
   \<and> point_set_ok dynamic_point_set
   \<and> (\<exists>ps'. forward exact_arith default_transform belief_1d 2 1 dynamic_point_set = (None, ps')
          \<and> int (length (slots ps')) = 5
          \<and> slots ps' ! 0 = Some ([Some 5], \<lparr>w_mean = Some 0, w_cov = Some 2\<rparr>)
          \<and> slots ps' ! 1 = Some ([Some 5], \<lparr>w_mean = Some (1 / 4), w_cov = Some (1 / 4)\<rparr>)
          \<and> slots ps' ! 2 =
              Some ([Some (5 + 3 * sqrt 2)], \<lparr>w_mean = Some (1 / 4), w_cov = Some (1 / 4)\<rparr>)
          \<and> slots ps' ! 3 = Some ([Some 5], \<lparr>w_mean = Some (1 / 4), w_cov = Some (1 / 4)\<rparr>)
          \<and> slots ps' ! 4 =
              Some ([Some (5 - 3 * sqrt 2)], \<lparr>w_mean = Some (1 / 4), w_cov = Some (1 / 4)\<rparr>))"
proof -
  note ok = belief_1d_ok(1)
  have off: "(0::int) \<le> 1" by simp
  have le: "1 + gaussian_dimension belief_1d \<le> 2"
    by (simp add: belief_1d_ok(2))
  have int: "(2::int) \<le> 2147483647" by simp
  have asserted: "0 < number_of_points 2"
    by (simp add: number_of_points_2)
  note fits = dynamic_point_set_ok(1) [of "2 * 2 + 1"]
  note ps = dynamic_point_set_ok(2)
  have dim': "a_of_int exact_arith 2 = Some 2"
    by (simp add: exact_arith_def)
  note scalars = default_scalars_2
  obtain ps' written
    where run: "forward exact_arith default_transform belief_1d 2 1 dynamic_point_set = (None, ps')"
    and len: "int (length (slots ps')) = 2 * 2 + 1"
    and first: "slots ps' ! 0 =
             Some (gaussian_mean belief_1d,
                   \<lparr>w_mean = weight_mean_0 exact_arith default_transform (a_of_int exact_arith 2),
                    w_cov = weight_cov_0 exact_arith default_transform (a_of_int exact_arith 2)\<rparr>)"
    and own: "\<forall>j. 1 \<le> j \<and> j < 1 + gaussian_dimension belief_1d \<longrightarrow>
               slots ps' ! nat (1 + j) =
                 Some (vec_add exact_arith (gaussian_mean belief_1d)
                         (mat_scale exact_arith (gaussian_square_root belief_1d)
                            (gamma_factor exact_arith default_transform (a_of_int exact_arith 2))
                            ! nat (j - 1)),
                       \<lparr>w_mean = weight_mean_i exact_arith default_transform (a_of_int exact_arith 2),
                        w_cov = weight_cov_i exact_arith default_transform (a_of_int exact_arith 2)\<rparr>)
             \<and> slots ps' ! nat (2 + (1 + j)) =
                 Some (vec_sub exact_arith (gaussian_mean belief_1d)
                         (mat_scale exact_arith (gaussian_square_root belief_1d)
                            (gamma_factor exact_arith default_transform (a_of_int exact_arith 2))
                            ! nat (j - 1)),
                       \<lparr>w_mean = weight_mean_i exact_arith default_transform (a_of_int exact_arith 2),
                        w_cov = weight_cov_i exact_arith default_transform (a_of_int exact_arith 2)\<rparr>)"
    and other: "\<forall>i. 1 \<le> i \<and> i \<le> 2 \<and> \<not> (1 < i \<and> i \<le> 1 + gaussian_dimension belief_1d) \<longrightarrow>
               slots ps' ! nat i =
                 Some (gaussian_mean belief_1d,
                       \<lparr>w_mean = weight_mean_i exact_arith default_transform (a_of_int exact_arith 2),
                        w_cov = weight_cov_i exact_arith default_transform (a_of_int exact_arith 2)\<rparr>)
             \<and> slots ps' ! nat (2 + i) =
                 Some (gaussian_mean belief_1d,
                       \<lparr>w_mean = weight_mean_i exact_arith default_transform (a_of_int exact_arith 2),
                        w_cov = weight_cov_i exact_arith default_transform (a_of_int exact_arith 2)\<rparr>)"
    using forward_point_layout [OF ok off le int asserted fits ps, of exact_arith default_transform]
    by blast
  note dim = belief_1d_ok(2)
  have j1: "(1::int) \<le> 1 \<and> (1::int) < 1 + gaussian_dimension belief_1d"
    and i1: "(1::int) \<le> 1 \<and> (1::int) \<le> 2
             \<and> \<not> ((1::int) < 1 \<and> (1::int) \<le> 1 + gaussian_dimension belief_1d)"
    by (simp_all add: dim)
  have add: "a_add exact_arith = fp_add" and sub: "a_sub exact_arith = fp_sub"
    and mul: "a_mul exact_arith = fp_mul"
    by (simp_all add: exact_arith_def)
  from own [rule_format, OF j1] other [rule_format, OF i1]
  have "slots ps' ! 2 = Some ([Some (5 + 3 * sqrt 2)], \<lparr>w_mean = Some (1 / 4), w_cov = Some (1 / 4)\<rparr>)"
    "slots ps' ! 4 = Some ([Some (5 - 3 * sqrt 2)], \<lparr>w_mean = Some (1 / 4), w_cov = Some (1 / 4)\<rparr>)"
    "slots ps' ! 1 = Some ([Some 5], \<lparr>w_mean = Some (1 / 4), w_cov = Some (1 / 4)\<rparr>)"
    "slots ps' ! 3 = Some ([Some 5], \<lparr>w_mean = Some (1 / 4), w_cov = Some (1 / 4)\<rparr>)"
    by (simp_all add: dim dim' scalars belief_1d_fields mat_scale_def vec_add_def
        vec_sub_def add sub mul fp_add_def fp_sub_def fp_mul_def numeral_2_eq_2 numeral_3_eq_3
        eval_nat_numeral)
  moreover have "slots ps' ! 0 = Some ([Some 5], \<lparr>w_mean = Some 0, w_cov = Some 2\<rparr>)"
    using first by (simp add: dim' scalars belief_1d_fields)
  ultimately show ?thesis
    using ok off le int asserted fits ps run len by simp
qed

text \<open>
  The default transform on the belief of dimension one with mean 5 and square root 3,
  embedded at the offset \<open>-1\<close> into the global dimension 1, in the arithmetic without
  rounding; every value that occurs is an integer or a half, so that floating-point
  arithmetic gives the same.  The first loop does not run; the second runs for
  \<open>i = 0\<close> and writes the points 0 and 1; the third runs for \<open>i = 1\<close> and writes the
  points 1 and 2.
\<close>

lemma default_scalars_1:
  "weight_mean_0 exact_arith default_transform (Some 1) = Some 0"
  "weight_cov_0 exact_arith default_transform (Some 1) = Some 2"
  "weight_mean_i exact_arith default_transform (Some 1) = Some (1 / 2)"
  "weight_cov_i exact_arith default_transform (Some 1) = Some (1 / 2)"
  "gamma_factor exact_arith default_transform (Some 1) = Some 1"
  by (simp_all add: default_transform_def finite_transform_def exact_arith_def weight_mean_0_def
      weight_cov_0_def weight_mean_i_def weight_cov_i_def gamma_factor_def lambda_scalar_def
      fp_quot_def fp_root_def fp_div_def fp_add_def fp_sub_def fp_mul_def fp_sqrt_def)

lemma int32_numerals:
  "int32 0 = 0" "int32 1 = 1" "int32 2 = 2"
  by (rule int32_id; simp)+

lemma forward_negative_offset:
  "forward exact_arith default_transform belief_1d 1 (- 1) dynamic_point_set =
     (None,
      \<lparr>NumberOfPoints = Dynamic,
       slots = [Some ([Some 8], \<lparr>w_mean = Some (1 / 2), w_cov = Some (1 / 2)\<rparr>),
                Some ([Some 5], \<lparr>w_mean = Some (1 / 2), w_cov = Some (1 / 2)\<rparr>),
                Some ([Some 5], \<lparr>w_mean = Some (1 / 2), w_cov = Some (1 / 2)\<rparr>)],
       write_log = [0, 0, 1, 1, 2]\<rparr>)"
proof -
  have lists: "[1..(- 1::int)] = []" "[0..(0::int)] = [0]" "[1..(1::int)] = [1]"
    by (simp_all add: upto_rec1)
  have dim': "a_of_int exact_arith 1 = Some 1"
    by (simp add: exact_arith_def)
  have ops: "a_add exact_arith = fp_add" "a_sub exact_arith = fp_sub" "a_mul exact_arith = fp_mul"
    by (simp_all add: exact_arith_def)
  have fixed: "IsFixed Dynamic = False"
    by (simp add: IsFixed_def)
  show ?thesis
    by (simp add: forward_def Let_def number_of_points_1 dim' default_scalars_1 belief_1d_ok(2)
        belief_1d_fields for_loop_run_list lists int32_numerals dynamic_point_set_def fixed
        resize_def point_def col_def mat_scale_def vec_add_def vec_sub_def ops fp_add_def
        fp_sub_def fp_mul_def eval_nat_numeral)
qed

text \<open>
  At the offset \<open>-1\<close>, which has \<open>off + d = 0 \<le> 1 = n\<close>, the call completes, but
  point 0 is the mean plus the column with the weights \<open>(w_mean_i, w_cov_i)\<close>, not
  the mean with the weights \<open>(w_mean_0, w_cov_0)\<close>, and the indices 0 and 1 are
  written twice.
\<close>

theorem negative_offset_counterexample:
  "- 1 + gaussian_dimension belief_1d \<le> 1
   \<and> fst (forward exact_arith default_transform belief_1d 1 (- 1) dynamic_point_set) = None
   \<and> slots (snd (forward exact_arith default_transform belief_1d 1 (- 1) dynamic_point_set)) ! 0
       = Some ([Some 8], \<lparr>w_mean = Some (1 / 2), w_cov = Some (1 / 2)\<rparr>)
   \<and> slots (snd (forward exact_arith default_transform belief_1d 1 (- 1) dynamic_point_set)) ! 0
       \<noteq> Some (gaussian_mean belief_1d,
                \<lparr>w_mean = weight_mean_0 exact_arith default_transform (a_of_int exact_arith 1),
                 w_cov = weight_cov_0 exact_arith default_transform (a_of_int exact_arith 1)\<rparr>)
   \<and> write_log (snd (forward exact_arith default_transform belief_1d 1 (- 1) dynamic_point_set))
       = [0, 0, 1, 1, 2]
   \<and> mset (write_log
             (snd (forward exact_arith default_transform belief_1d 1 (- 1) dynamic_point_set)))
       \<noteq> mset [0..2 * 1]"
proof -
  have "[0..2 * (1::int)] = [0, 1, 2]"
    by (simp add: upto_rec1)
  then have "size (mset [0, 0, 1, 1, 2::int]) \<noteq> size (mset [0..2 * (1::int)])"
    by simp
  then have "mset [0, 0, 1, 1, 2] \<noteq> mset [0..2 * (1::int)]"
    by (rule contrapos_nn) simp
  then show ?thesis
    by (simp add: forward_negative_offset belief_1d_ok(2) belief_1d_fields)
qed

section \<open>Properties of the multi-sensor update policy\<close>

declare is_valid.simps [simp del] sensor_loop.simps [simp del]

lemma is_valid_iff:
  "is_valid E vector k e \<longleftrightarrow> (\<forall>j. k \<le> j \<and> j < e \<longrightarrow> s_isfinite E (v_get E vector j))"
proof (induction E vector k e rule: is_valid.induct)
  case (1 E vector k e)
  show ?case
  proof (cases "k < e")
    case False
    then show ?thesis by (subst is_valid.simps) auto
  next
    case True
    show ?thesis
    proof (cases "s_isfinite E (v_get E vector k)")
      case False
      with True show ?thesis
        by (subst is_valid.simps) auto
    next
      case fin: True
      have "is_valid E vector k e = is_valid E vector (Suc k) e"
        using True fin by (subst is_valid.simps) simp
      also have "\<dots> = (\<forall>j. Suc k \<le> j \<and> j < e \<longrightarrow> s_isfinite E (v_get E vector j))"
        using "1.IH" True fin by simp
      also have "\<dots> = (\<forall>j. k \<le> j \<and> j < e \<longrightarrow> s_isfinite E (v_get E vector j))"
        using fin by (metis Suc_leI le_neq_implies_less Suc_leD)
      finally show ?thesis .
    qed
  qed
qed

lemma sensor_loop_foldl:
  "sensor_loop body i n st = foldl (\<lambda>st i. body i st) st [i..<n]"
proof (induction body i n st rule: sensor_loop.induct)
  case (1 body i n st)
  show ?case
  proof (cases "i < n")
    case True
    then show ?thesis
      using "1.IH" by (subst sensor_loop.simps) (simp add: upt_conv_Cons)
  next
    case False
    then show ?thesis by (subst sensor_loop.simps) simp
  qed
qed

lemma moments_sensor_id [simp]:
  "body_moments E Q (M\<lparr>sensor_id := k\<rparr>) = body_moments E Q M"
  "tail_moments E Q (M\<lparr>sensor_id := k\<rparr>) = tail_moments E Q M"
  "fused_moments E Q (M\<lparr>sensor_id := k\<rparr>) = fused_moments E Q M"
  "sensor_contributes E Q (M\<lparr>sensor_id := k\<rparr>) = sensor_contributes E Q M"
  by (intro ext, simp add: body_moments_def tail_moments_def fused_moments_def
      sensor_contributes_def sensor_function_def)+

lemma sensor_step_eq:
  "sensor_step E Q y dim_y p_X p_Q X W c_xx_inv i st =
     (if \<not> is_valid E y (i * dim_y) (i * dim_y + dim_y) then st
      else if \<not> is_valid E (fst (body_moments E Q (acc_model st) p_X p_Q X W i)) 0 dim_y
      then st\<lparr>acc_model := (acc_model st)\<lparr>sensor_id := int i\<rparr>\<rparr>
      else st\<lparr>acc_C := m_add E (acc_C st)
                  (information_C E c_xx_inv (fused_moments E Q (acc_model st) p_X p_Q X W i)),
              acc_D := v_add E (acc_D st)
                  (information_D E c_xx_inv (fused_moments E Q (acc_model st) p_X p_Q X W i)
                     (v_middleRows E y (i * dim_y) dim_y)),
              acc_model := (acc_model st)\<lparr>sensor_id := int i\<rparr>\<rparr>)"
  by (simp add: sensor_step_def Let_def body_moments_def tail_moments_def fused_moments_def
      quadrature_moments_def sensor_function_def mixture_fuse_def information_C_def
      information_D_def)


lemma selected_model_sensor_id:
  "\<exists>k. selected_model E (M\<lparr>sensor_id := j\<rparr>) y dim_y xs = M\<lparr>sensor_id := k\<rparr>"
proof (induction xs arbitrary: j)
  case Nil
  show ?case by (auto simp: selected_model_def)
next
  case (Cons x xs)
  show ?case
    using Cons.IH [of j] Cons.IH [of "int x"] by (simp add: selected_model_def)
qed

lemma foldl_sensor_step:
  assumes "acc_model st = M\<lparr>sensor_id := k\<rparr>"
  shows "foldl (\<lambda>st i. sensor_step E Q y dim_y p_X p_Q X W c_xx_inv i st) st xs =
     \<lparr>acc_C = accumulated_C E Q M p_X p_Q X W c_xx_inv (acc_C st)
                (contributing E Q M y dim_y p_X p_Q X W xs),
      acc_D = accumulated_D E Q M y dim_y p_X p_Q X W c_xx_inv (acc_D st)
                (contributing E Q M y dim_y p_X p_Q X W xs),
      acc_model = selected_model E (acc_model st) y dim_y xs\<rparr>"
  using assms
proof (induction xs arbitrary: st k)
  case Nil
  show ?case
    by (simp add: accumulated_C_def accumulated_D_def contributing_def selected_model_def)
next
  case (Cons i xs)
  let ?st' = "sensor_step E Q y dim_y p_X p_Q X W c_xx_inv i st"
  have model: "\<exists>k'. acc_model ?st' = M\<lparr>sensor_id := k'\<rparr>"
    using Cons.prems by (auto simp: sensor_step_eq)
  then obtain k' where k': "acc_model ?st' = M\<lparr>sensor_id := k'\<rparr>" ..
  have step: "foldl (\<lambda>st i. sensor_step E Q y dim_y p_X p_Q X W c_xx_inv i st) st (i # xs) =
      \<lparr>acc_C = accumulated_C E Q M p_X p_Q X W c_xx_inv (acc_C ?st')
                (contributing E Q M y dim_y p_X p_Q X W xs),
       acc_D = accumulated_D E Q M y dim_y p_X p_Q X W c_xx_inv (acc_D ?st')
                (contributing E Q M y dim_y p_X p_Q X W xs),
       acc_model = selected_model E (acc_model ?st') y dim_y xs\<rparr>"
    using Cons.IH [OF k'] by simp
  show ?case
    unfolding step using Cons.prems
    by (simp add: sensor_step_eq accumulated_C_def accumulated_D_def contributing_def
        selected_model_def sensor_contributes_def)
qed

lemma update_init_eq:
  "update_init E Q prior =
     (fst (transform_to_points Q prior (noise_distr E)),
      snd (transform_to_points Q prior (noise_distr E)),
      points_mean Q (fst (transform_to_points Q prior (noise_distr E))),
      centered_points Q (fst (transform_to_points Q prior (noise_distr E))),
      m_asDiagonal E (covariance_weights_vector Q (fst (transform_to_points Q prior (noise_distr E)))),
      m_inverse E
        (m_mul E
           (m_mul E (centered_points Q (fst (transform_to_points Q prior (noise_distr E))))
              (m_asDiagonal E
                 (covariance_weights_vector Q (fst (transform_to_points Q prior (noise_distr E))))))
           (m_transpose E (centered_points Q (fst (transform_to_points Q prior (noise_distr E)))))))"
  by (simp add: update_init_def Let_def split: prod.splits)

lemma update_finalize_eq:
  "update_finalize E prior mu_x C D (posterior :: ('v, 'm) Belief) =
     \<lparr>belief_dimension = belief_dimension prior,
      belief_mean = v_add E mu_x (m_vec E (m_inverse E C) D),
      belief_covariance = m_inverse E C\<rparr>"
  by (cases posterior) (simp add: update_finalize_def Let_def)

lemma update_loop_form:
  "update E Q M prior y posterior =
     (case update_init E Q prior of
        (p_X, p_Q, mu_x, X, W, c_xx_inv) \<Rightarrow>
          if count_local_models M = 0 then Inl DivisionByZero
          else if \<not> count_local_models M dvd int (v_size E y) then Inl AssertionFailed
          else
            let dim_y = nat (int (v_size E y) div count_local_models M);
                st = foldl (\<lambda>st i. sensor_step E Q y dim_y p_X p_Q X W c_xx_inv i st)
                       \<lparr>acc_C = c_xx_inv, acc_D = v_zero E (v_size E mu_x), acc_model = M\<rparr>
                       [0..<nat (count_local_models M)]
            in Inr (update_finalize E prior mu_x (acc_C st) (acc_D st) posterior,
                    acc_model st))"
  by (simp add: update_def Let_def sensor_loop_foldl split: prod.splits)

text \<open>
  C1.  One update call, for every prior belief, model and measurement vector: unless
  the model has no sensor (the division of the size of \<open>y\<close> by the number of sensors
  fails) or the size of \<open>y\<close> is not a multiple of the number of sensors (the assertion
  fails), the call computes \<open>mu_x\<close>, the centered points \<open>X\<close> and the diagonal matrix
  \<open>W\<close> of the covariance weights from the sigma points, sets \<open>c_xx = X W X\<^sup>T\<close>,
  starts the accumulators at \<open>C = c_xx\<^sup>-\<^sup>1\<close> and \<open>D = 0\<close>, adds for every sensor
  that is not skipped, in the order of the sensors, \<open>A_i\<^sup>T solve(c_yy_given_x, A_i)\<close>
  to \<open>C\<close> and \<open>A_i\<^sup>T solve(c_yy_given_x, innovation)\<close> to \<open>D\<close>, and returns the
  posterior with the covariance \<open>C\<^sup>-\<^sup>1\<close> and the mean \<open>mu_x + C\<^sup>-\<^sup>1 D\<close>.
\<close>

theorem update_information_form:
  "update E Q M prior y posterior =
     (if count_local_models M = 0 then Inl DivisionByZero
      else if \<not> count_local_models M dvd int (v_size E y) then Inl AssertionFailed
      else Inr (spec_update E Q M prior y [0..<nat (count_local_models M)]))"
proof -
  have M: "acc_model \<lparr>acc_C = C, acc_D = D, acc_model = M\<rparr> = M\<lparr>sensor_id := sensor_id M\<rparr>"
    for C D
    by simp
  show ?thesis
    unfolding update_loop_form update_init_eq
    by (simp add: Let_def foldl_sensor_step [OF M] update_finalize_eq spec_update_def
        split: prod.splits)
qed


lemma not_valid_slice:
  "a \<le> k \<Longrightarrow> k < b \<Longrightarrow> \<not> s_isfinite E (v_get E y k) \<Longrightarrow> \<not> is_valid E y a b"
  by (auto simp: is_valid_iff)

lemma sensor_step_invalid_slice:
  "\<not> is_valid E y (i * dim_y) (i * dim_y + dim_y) \<Longrightarrow>
   sensor_step E Q y dim_y p_X p_Q X W c_xx_inv i st = st"
  by (simp add: sensor_step_def)

text \<open>
  C3.  If a coefficient \<open>k\<close> of the measurement slice of sensor \<open>i\<close> is not finite,
  the body of the loop leaves the state as it is for that sensor, whatever the state and
  the sigma points are: nothing is added to \<open>C\<close> or to \<open>D\<close>.  The update call then
  returns what it returns with the loop run over all sensors but \<open>i\<close>.
\<close>

theorem non_finite_slice_skips_sensor:
  assumes "i * dim_y \<le> k" and "k < i * dim_y + dim_y"
    and "\<not> s_isfinite E (v_get E y k)"
    and "dim_y = nat (int (v_size E y) div count_local_models M)"
  shows "sensor_step E Q y dim_y p_X p_Q X W c_xx_inv i st = st
       \<and> update E Q M prior y posterior = update_omitting E Q M prior y posterior i"
proof
  have invalid: "\<not> is_valid E y (i * dim_y) (i * dim_y + dim_y)"
    using assms(1-3) by (rule not_valid_slice)
  then show "sensor_step E Q y dim_y p_X p_Q X W c_xx_inv i st = st"
    by (rule sensor_step_invalid_slice)
  have same: "(\<lambda>j st. if j = i then st
                 else sensor_step E Q y dim_y p_X' p_Q' X' W' c' j st) =
              sensor_step E Q y dim_y p_X' p_Q' X' W' c'" for p_X' p_Q' X' W' c'
    by (intro ext) (simp add: sensor_step_invalid_slice [OF invalid])
  show "update E Q M prior y posterior = update_omitting E Q M prior y posterior i"
    unfolding update_def update_omitting_def Let_def assms(4) [symmetric]
    by (simp only: same)
qed

text \<open>
  C4.  For a sensor that is not skipped, the moments that enter the accumulation are
  the body and the tail results fused with \<open>t = tail_weight\<close> and \<open>b = 1 - t\<close>:
  \<open>mu_y = b mu_y_body + t mu_y_tail\<close>, the second moments
  \<open>m_yy_body = c_yy_body + mu_y_body mu_y_body\<^sup>T\<close> and the same for the tail,
  \<open>m_yy = b m_yy_body + t m_yy_tail\<close>, \<open>c_yy = m_yy - mu_y mu_y\<^sup>T\<close> and
  \<open>c_xy = b c_xy_body + t c_xy_tail\<close>.
\<close>

theorem fused_moments_of_sensor:
  assumes "sensor_contributes E Q (acc_model st) y dim_y p_X p_Q X W i"
  shows "(case body_moments E Q (acc_model st) p_X p_Q X W i of
            (mu_y_body, c_yy_body, c_xy_body) \<Rightarrow>
          case tail_moments E Q (acc_model st) p_X p_Q X W i of
            (mu_y_tail, c_yy_tail, c_xy_tail) \<Rightarrow>
            let t = tail_weight (acc_model st) (int i);
                b = s_sub E (s_lit E 1) t;
                mu_y = v_add E (v_scale E b mu_y_body) (v_scale E t mu_y_tail);
                m_yy_body = m_add E c_yy_body (v_outer E mu_y_body mu_y_body);
                m_yy_tail = m_add E c_yy_tail (v_outer E mu_y_tail mu_y_tail);
                m_yy = m_add E (m_scale E b m_yy_body) (m_scale E t m_yy_tail);
                c_yy = m_sub E m_yy (v_outer E mu_y mu_y);
                c_xy = m_add E (m_scale E b c_xy_body) (m_scale E t c_xy_tail)
            in sensor_step E Q y dim_y p_X p_Q X W c_xx_inv i st =
                 st\<lparr>acc_C := m_add E (acc_C st) (information_C E c_xx_inv (mu_y, c_yy, c_xy)),
                     acc_D := v_add E (acc_D st)
                       (information_D E c_xx_inv (mu_y, c_yy, c_xy)
                          (v_middleRows E y (i * dim_y) dim_y)),
                     acc_model := (acc_model st)\<lparr>sensor_id := int i\<rparr>\<rparr>)"
  using assms
  by (simp add: sensor_step_eq sensor_contributes_def fused_moments_def mixture_fuse_def Let_def
      split: prod.splits)




subsection \<open>The claims at the scalar instance\<close>

lemma scalar_fields [simp]:
  "s_add scalar_eigen = fp_add"
  "s_sub scalar_eigen = fp_sub"
  "s_mul scalar_eigen = fp_mul"
  "s_lit scalar_eigen = Some"
  "s_isfinite scalar_eigen = (\<lambda>a. a \<noteq> None)"
  "v_get scalar_eigen = (\<lambda>v k. v)"
  "v_size scalar_eigen = (\<lambda>v. 1)"
  "v_zero scalar_eigen = (\<lambda>n. Some 0)"
  "v_add scalar_eigen = fp_add"
  "v_sub scalar_eigen = fp_sub"
  "v_scale scalar_eigen = fp_mul"
  "v_outer scalar_eigen = fp_mul"
  "v_middleRows scalar_eigen = (\<lambda>v start n. v)"
  "m_add scalar_eigen = fp_add"
  "m_sub scalar_eigen = fp_sub"
  "m_scale scalar_eigen = fp_mul"
  "m_vec scalar_eigen = fp_mul"
  "m_mul scalar_eigen = fp_mul"
  "m_transpose scalar_eigen = (\<lambda>m. m)"
  "m_inverse scalar_eigen = fp_inverse"
  "m_asDiagonal scalar_eigen = (\<lambda>v. v)"
  "m_identity scalar_eigen = (\<lambda>n. Some 1)"
  "solve_m scalar_eigen = fp_solve"
  "solve_v scalar_eigen = fp_solve"
  by (simp_all add: scalar_eigen_def)

theorem non_finite_slice_skips_sensor_witness:
  "0 * 1 \<le> (0::nat) \<and> (0::nat) < 0 * 1 + 1
   \<and> \<not> s_isfinite scalar_eigen (v_get scalar_eigen None 0)
   \<and> 1 = nat (int (v_size scalar_eigen (None :: Real)) div count_local_models scalar_model)
   \<and> sensor_step scalar_eigen scalar_quadrature None 1 (Some 0, Some 1) (Some 0, Some 1)
        (Some 1) (Some 1) (Some 1) 0
        \<lparr>acc_C = Some 1, acc_D = Some 0, acc_model = scalar_model\<rparr>
       = \<lparr>acc_C = Some 1, acc_D = Some 0, acc_model = scalar_model\<rparr>
   \<and> update scalar_eigen scalar_quadrature scalar_model scalar_prior None scalar_prior
       = update_omitting scalar_eigen scalar_quadrature scalar_model scalar_prior None
           scalar_prior 0"
proof -
  have a: "0 * 1 \<le> (0::nat)" and b: "(0::nat) < 0 * 1 + 1" by simp_all
  have c: "\<not> s_isfinite scalar_eigen (v_get scalar_eigen None 0)" by simp
  have d: "1 = nat (int (v_size scalar_eigen (None :: Real)) div count_local_models scalar_model)"
    by (simp add: scalar_model_def)
  note skip = non_finite_slice_skips_sensor [OF a b c d, of scalar_quadrature "(Some 0, Some 1)"
      "(Some 0, Some 1)" "Some 1" "Some 1" "Some 1"
      "\<lparr>acc_C = Some 1, acc_D = Some 0, acc_model = scalar_model\<rparr>" scalar_prior scalar_prior]
  show ?thesis
    by (intro conjI a b c d conjunct1 [OF skip] conjunct2 [OF skip])
qed

theorem fused_moments_of_sensor_witness:
  "sensor_contributes scalar_eigen scalar_quadrature scalar_model (Some 1) 1
     (Some 0, Some 1) (Some 0, Some 1) (Some 1) (Some 1) 0
   \<and> sensor_step scalar_eigen scalar_quadrature (Some 1) 1 (Some 0, Some 1) (Some 0, Some 1)
        (Some 1) (Some 1) (Some 1) 0
        \<lparr>acc_C = Some 1, acc_D = Some 0, acc_model = scalar_model\<rparr>
       = \<lparr>acc_C = fp_add (Some 1)
                     (information_C scalar_eigen (Some 1) (Some 0, Some 1, Some 1)),
          acc_D = fp_add (Some 0)
                     (information_D scalar_eigen (Some 1) (Some 0, Some 1, Some 1) (Some 1)),
          acc_model = scalar_model\<rparr>"
proof -
  have body: "body_moments scalar_eigen scalar_quadrature scalar_model
                (Some 0, Some 1) (Some 0, Some 1) (Some 1) (Some 1) 0 = (Some 0, Some 1, Some 1)"
    and tail: "tail_moments scalar_eigen scalar_quadrature scalar_model
                (Some 0, Some 1) (Some 0, Some 1) (Some 1) (Some 1) 0 = (Some 0, Some 1, Some 1)"
    by (simp_all add: body_moments_def tail_moments_def quadrature_moments_def Let_def
        sensor_function_def scalar_quadrature_def scalar_model_def fp_add_def fp_mul_def)
  have h: "sensor_contributes scalar_eigen scalar_quadrature
             (acc_model \<lparr>acc_C = Some 1, acc_D = Some 0, acc_model = scalar_model\<rparr>)
             (Some 1) 1 (Some 0, Some 1) (Some 0, Some 1) (Some 1) (Some 1) 0"
    by (simp add: sensor_contributes_def body is_valid.simps)
  have model: "tail_weight scalar_model 0 = Some 0"
    "scalar_model\<lparr>sensor_id := 0\<rparr> = scalar_model"
    by (simp_all add: scalar_model_def)
  show ?thesis
    using fused_moments_of_sensor [OF h, of "Some 1"] h
    by (simp add: body tail Let_def model fp_add_def fp_mul_def fp_sub_def)
qed




section \<open>Moments of the generated sigma points\<close>






















lemma point_set_values_fields [simp]:
  "NumberOfPoints (point_set_values v ps) = NumberOfPoints ps"
  "length (slots (point_set_values v ps)) = length (slots ps)"
  by (simp_all add: point_set_values_def)





end
